theory Spec2Isabelle
  imports Main
begin

section \<open>CrashLoopManager\<close>

text \<open>
  The crash log is a JSON file read in full by every operation. Timestamps are whole
  numbers of milliseconds (\<open>Date.now()\<close>), and the two numbers of the configuration
  are taken to be whole as well, so \<open>timestamp\<close>, \<open>maxCrashes\<close> and
  \<open>timeWindowMinutes\<close> are of type \<open>int\<close>.
\<close>

definition MAX_LOG_ENTRIES :: nat where
  "MAX_LOG_ENTRIES = 20"

record CrashEvent =
  timestamp :: int
  errorType :: string

record CrashLoopConfig =
  maxCrashes :: int
  timeWindowMinutes :: int
  relevantErrorTypes :: "string list"

text \<open>
  What is found at \<open>crashLogFilePath\<close>: no file, a file that cannot be read or
  parsed, JSON that is not an array, or an array of crash events.
\<close>

datatype crash_file =
    NoCrashFile
  | UnreadableCrashFile
  | NotAnArray
  | CrashEntries "CrashEvent list"

text \<open>\<open>readCrashLog\<close>: every failure and every non-array yields the empty log.\<close>

fun readCrashLog :: "crash_file \<Rightarrow> CrashEvent list" where
  "readCrashLog NoCrashFile = []"
| "readCrashLog UnreadableCrashFile = []"
| "readCrashLog NotAnArray = []"
| "readCrashLog (CrashEntries es) = es"

text \<open>
  \<open>writeCrashLog\<close>: \<open>logData.slice(logData.length - MAX_LOG_ENTRIES)\<close> when the log
  is too long, then the write. The flag says whether \<open>ensureDir\<close> and \<open>writeJson\<close>
  succeed; when they throw, the error is logged and the file stays as it was.
\<close>

definition writeCrashLog :: "bool \<Rightarrow> CrashEvent list \<Rightarrow> crash_file \<Rightarrow> crash_file" where
  "writeCrashLog write_ok logData f =
     (if write_ok
      then CrashEntries
             (if length logData > MAX_LOG_ENTRIES
              then drop (length logData - MAX_LOG_ENTRIES) logData
              else logData)
      else f)"

text \<open>\<open>recordPotentialCrash\<close>: read, push \<open>{timestamp: Date.now(), errorType}\<close>, write.\<close>

definition recordPotentialCrash :: "bool \<Rightarrow> int \<Rightarrow> string \<Rightarrow> crash_file \<Rightarrow> crash_file" where
  "recordPotentialCrash write_ok now et f =
     writeCrashLog write_ok
       (readCrashLog f @ [\<lparr>timestamp = now, errorType = et\<rparr>]) f"

text \<open>The predicate of the \<open>filter\<close> call in \<open>isCrashLoopDetected\<close>.\<close>

definition recentRelevant :: "int \<Rightarrow> CrashLoopConfig \<Rightarrow> CrashEvent \<Rightarrow> bool" where
  "recentRelevant now config crash =
     ((now - timestamp crash) \<le> timeWindowMinutes config * 60 * 1000 \<and>
      (length (relevantErrorTypes config) = 0 \<or>
       errorType crash \<in> set (relevantErrorTypes config)))"

definition isCrashLoopDetected :: "int \<Rightarrow> CrashLoopConfig \<Rightarrow> crash_file \<Rightarrow> bool" where
  "isCrashLoopDetected now config f =
     (let crashes = readCrashLog f in
      if length crashes = 0 then False
      else
        let recentRelevantCrashes = filter (recentRelevant now config) crashes in
        if int (length recentRelevantCrashes) \<ge> maxCrashes config then True else False)"

definition resetCrashState :: "bool \<Rightarrow> crash_file \<Rightarrow> crash_file" where
  "resetCrashState write_ok f = writeCrashLog write_ok [] f"

text \<open>A run of \<open>recordPotentialCrash\<close> calls, each with its own write outcome, time and kind.\<close>

fun recordAll :: "(bool \<times> int \<times> string) list \<Rightarrow> crash_file \<Rightarrow> crash_file" where
  "recordAll [] f = f"
| "recordAll ((write_ok, now, et) # rest) f =
     recordAll rest (recordPotentialCrash write_ok now et f)"

text \<open>
  The count the specification describes: entries whose timestamp lies within the
  window before \<open>now\<close> and whose kind is relevant (any kind when none is listed).
\<close>

definition spec_relevant_count :: "int \<Rightarrow> CrashLoopConfig \<Rightarrow> CrashEvent list \<Rightarrow> nat" where
  "spec_relevant_count now config es =
     length [c \<leftarrow> es. now - timestamp c \<le> timeWindowMinutes config * 60000 \<and>
                      (relevantErrorTypes config = [] \<or>
                       errorType c \<in> set (relevantErrorTypes config))]"

text \<open>The default configuration, and a log with one entry per given minute before \<open>now\<close>.\<close>

definition defaultCrashLoopConfig :: CrashLoopConfig where
  "defaultCrashLoopConfig =
     \<lparr>maxCrashes = 5, timeWindowMinutes = 15,
      relevantErrorTypes =
        [''API_INIT_FAILURE'', ''DEVICE_HEALTH_FAILURE'', ''TOKEN_REFRESH_FAILURE'']\<rparr>"

definition entries_at_minutes :: "int \<Rightarrow> int list \<Rightarrow> CrashEvent list" where
  "entries_at_minutes now ms =
     map (\<lambda>m. \<lparr>timestamp = now - m * 60000, errorType = ''API_INIT_FAILURE''\<rparr>) ms"

text \<open>A log at the cap: twenty entries, stamped 1 to 20.\<close>

definition full_log :: crash_file where
  "full_log =
     CrashEntries
       (map (\<lambda>t. \<lparr>timestamp = t, errorType = ''API_INIT_FAILURE''\<rparr>)
          [1, 2, 3, 4, 5, 6, 7, 8, 9, 10, 11, 12, 13, 14, 15, 16, 17, 18, 19, 20])"

section \<open>JavaScript values\<close>

text \<open>
  The credentials are assigned from the message as they come, and \<open>isInstalled\<close>
  compares them with \<open>null\<close> by \<open>!==\<close>, so a value that is a string, \<open>null\<close> or
  \<open>undefined\<close> (a missing key) is kept as what it is. \<open>truthy\<close> is JavaScript's
  truthiness on such a value: \<open>null\<close>, \<open>undefined\<close> and the empty string are falsy.
  \<open>orNull v\<close> is \<open>v || null\<close>, and \<open>strOf\<close> reads the string of a value that is one.
\<close>

datatype jsval = Null | Undefined | Str string

fun truthy :: "jsval \<Rightarrow> bool" where
  "truthy Null = False"
| "truthy Undefined = False"
| "truthy (Str s) = (s \<noteq> [])"

definition orNull :: "jsval \<Rightarrow> jsval" where
  "orNull v = (if truthy v then v else Null)"

fun strOf :: "jsval \<Rightarrow> string" where
  "strOf (Str s) = s"
| "strOf v = []"

text \<open>
  An optional string of a message that the code only tests for truthiness is a
  \<open>string option\<close>: there \<open>null\<close> and a missing key behave alike.
\<close>

definition truthyOpt :: "string option \<Rightarrow> bool" where
  "truthyOpt v = (case v of None \<Rightarrow> False | Some s \<Rightarrow> s \<noteq> [])"

section \<open>SmartApp lifecycle messages\<close>

record InstalledApp =
  app_installedAppId :: jsval
  app_locationId :: jsval

record PingData =
  challenge :: "string option"

record ConfirmationData =
  confirmationUrl :: "string option"

record ConfigurationData =
  phase :: string

text \<open>
  \<open>installData\<close> and \<open>updateData\<close> have the same fields the handler reads. The
  handler reads \<open>installedApp.installedAppId\<close> first, so the payload has an
  \<open>installedApp\<close> object; its fields and the two tokens may be strings, \<open>null\<close> or
  missing.
\<close>

record InstallData =
  data_authToken :: jsval
  data_refreshToken :: jsval
  data_installedApp :: InstalledApp

text \<open>\<open>value: any\<close> is carried unchanged; it is kept as its JSON text.\<close>

record DeviceEvent =
  de_deviceId :: string
  de_componentId :: string
  de_capability :: string
  de_attribute :: string
  de_value :: string

record DeviceLifecycleEvent =
  le_lifecycle :: string
  le_deviceId :: string
  le_deviceName :: "string option"

record SmartThingsEvent =
  eventType :: string
  deviceEvent :: "DeviceEvent option"
  deviceLifecycleEvent :: "DeviceLifecycleEvent option"

text \<open>
  \<open>handleEvent\<close> tests \<open>eventData.authToken && eventData.installedApp\<close>, so both may
  be missing here.
\<close>

record EventData =
  event_authToken :: "string option"
  event_installedApp :: "InstalledApp option"
  events :: "SmartThingsEvent list"

text \<open>The discriminant arrives as a JSON string; the \<open>switch\<close> compares it with the seven names.\<close>

record SmartAppRequest =
  lifecycle :: string
  appId :: "string option"
  pingData :: "PingData option"
  confirmationData :: "ConfirmationData option"
  configurationData :: "ConfigurationData option"
  installData :: "InstallData option"
  updateData :: "InstallData option"
  eventData :: "EventData option"

record ShortEvent =
  se_deviceId :: string
  se_componentId :: string
  se_capability :: string
  se_attribute :: string
  se_value :: string

text \<open>
  The object a lifecycle handler returns: the status code and which data object goes
  with it. \<open>InitializeBody\<close> and \<open>PageBody\<close> stand for the two static documents of
  \<open>handleConfiguration\<close>.
\<close>

datatype response_body =
    NoBody
  | PingBody string
  | InitializeBody
  | PageBody
  | InstallBody
  | UpdateBody
  | EventBody
  | UninstallBody

record response =
  statusCode :: nat
  body :: response_body

section \<open>The world around the handler\<close>

text \<open>
  One item of the remote subscription list: \<open>sub_deviceId\<close> is \<open>sub.device?.deviceId\<close>,
  missing when the item has no device or the device no id.
\<close>

record RemoteSubscription =
  sub_sourceType :: string
  sub_deviceId :: "string option"

text \<open>
  How an axios call ends: it resolves (for the list call with \<open>data.items || []\<close>),
  it rejects with a response status, or it rejects without a response.
\<close>

datatype http_result =
    Resolved "RemoteSubscription list"
  | RejectedStatus nat
  | RejectedNoResponse

text \<open>The outbound calls, in the order they are issued.\<close>

datatype call =
    GetUrl string
  | ListSubscriptions
  | PostDeviceSubscription string string
  | PostLifecycleSubscription string
  | DeleteSubscriptions

text \<open>
  The environment of one request: \<open>remote n\<close> answers the outbound call that is the
  \<open>n\<close>-th of the handler's life (counted from 0), \<open>fs_ok\<close> says whether writing or
  removing the credentials file succeeds, \<open>clock\<close> is the time.
\<close>

record env =
  remote :: "nat \<Rightarrow> http_result"
  fs_ok :: bool
  clock :: int

record SavedCredentials =
  saved_installedAppId :: jsval
  saved_authToken :: jsval
  saved_refreshToken :: jsval
  saved_locationId :: jsval
  savedAt :: int

datatype credentials_file =
    NoCredentialsFile
  | UnparsableCredentialsFile
  | CredentialsJson SavedCredentials

section \<open>SmartAppHandler\<close>

text \<open>
  The fields of the class, the credentials file, and three logs of what the handler
  did: the outbound calls, the calls of event handlers (handler, event) and the calls
  of device lifecycle handlers. A registered callback is known by a number; what it
  does with the event is outside the handler, and an error it raises is caught.

  An \<open>async\<close> method is a function from the state before to the state after: one
  request is handled to its end before the next begins. What two requests do when
  they are suspended at the same time is not described here.
\<close>

record handler =
  installedAppId :: jsval
  authToken :: jsval
  refreshToken :: jsval
  locationId :: jsval
  eventHandlers :: "nat list"
  deviceLifecycleHandlers :: "nat list"
  deviceIds :: "string list"
  credentialsFile :: credentials_file
  outbound :: "call list"
  delivered :: "(nat \<times> ShortEvent) list"
  lifecycleDelivered :: "(nat \<times> string \<times> string \<times> string option) list"

definition loadCredentials :: "handler \<Rightarrow> handler" where
  "loadCredentials h =
     (case credentialsFile h of
        NoCredentialsFile \<Rightarrow> h
      | UnparsableCredentialsFile \<Rightarrow> h
      | CredentialsJson d \<Rightarrow>
          h\<lparr>installedAppId := orNull (saved_installedAppId d),
            authToken := orNull (saved_authToken d),
            refreshToken := orNull (saved_refreshToken d),
            locationId := orNull (saved_locationId d)\<rparr>)"

text \<open>The constructor: every field at its initial value, then \<open>loadCredentials\<close>.\<close>

definition newHandler :: "credentials_file \<Rightarrow> handler" where
  "newHandler file =
     loadCredentials
       \<lparr>installedAppId = Null, authToken = Null, refreshToken = Null, locationId = Null,
        eventHandlers = [], deviceLifecycleHandlers = [], deviceIds = [],
        credentialsFile = file, outbound = [], delivered = [], lifecycleDelivered = []\<rparr>"

definition saveCredentials :: "env \<Rightarrow> handler \<Rightarrow> handler" where
  "saveCredentials e h =
     (if fs_ok e
      then h\<lparr>credentialsFile :=
               CredentialsJson
                 \<lparr>saved_installedAppId = installedAppId h,
                  saved_authToken = authToken h,
                  saved_refreshToken = refreshToken h,
                  saved_locationId = locationId h,
                  savedAt = clock e\<rparr>\<rparr>
      else h)"

definition clearCredentials :: "env \<Rightarrow> handler \<Rightarrow> handler" where
  "clearCredentials e h =
     (if credentialsFile h \<noteq> NoCredentialsFile \<and> fs_ok e
      then h\<lparr>credentialsFile := NoCredentialsFile\<rparr>
      else h)"

definition isInstalled :: "handler \<Rightarrow> bool" where
  "isInstalled h = (installedAppId h \<noteq> Null \<and> authToken h \<noteq> Null)"

text \<open>An outbound call: it is logged, and the environment answers it.\<close>

definition axios :: "env \<Rightarrow> call \<Rightarrow> handler \<Rightarrow> http_result \<times> handler" where
  "axios e c h = (remote e (length (outbound h)), h\<lparr>outbound := outbound h @ [c]\<rparr>)"

definition addEventHandler :: "nat \<Rightarrow> handler \<Rightarrow> handler" where
  "addEventHandler k h = h\<lparr>eventHandlers := eventHandlers h @ [k]\<rparr>"

definition addDeviceLifecycleHandler :: "nat \<Rightarrow> handler \<Rightarrow> handler" where
  "addDeviceLifecycleHandler k h = h\<lparr>deviceLifecycleHandlers := deviceLifecycleHandlers h @ [k]\<rparr>"

definition notifyEventHandlers :: "ShortEvent \<Rightarrow> handler \<Rightarrow> handler" where
  "notifyEventHandlers ev h =
     h\<lparr>delivered := delivered h @ map (\<lambda>k. (k, ev)) (eventHandlers h)\<rparr>"

definition notifyDeviceLifecycleHandlers ::
    "string \<Rightarrow> string \<Rightarrow> string option \<Rightarrow> handler \<Rightarrow> handler" where
  "notifyDeviceLifecycleHandlers lc d name h =
     h\<lparr>lifecycleDelivered :=
         lifecycleDelivered h @ map (\<lambda>k. (k, lc, d, name)) (deviceLifecycleHandlers h)\<rparr>"

subsection \<open>Subscriptions\<close>

text \<open>The set \<open>getExistingSubscriptions\<close> builds from the items of the list call.\<close>

definition subscribedDeviceIds :: "RemoteSubscription list \<Rightarrow> string set" where
  "subscribedDeviceIds items =
     set (map (\<lambda>sub. the (sub_deviceId sub))
            (filter (\<lambda>sub. sub_sourceType sub = ''DEVICE'' \<and> truthyOpt (sub_deviceId sub)) items))"

definition getExistingSubscriptions :: "env \<Rightarrow> handler \<Rightarrow> string set \<times> handler" where
  "getExistingSubscriptions e h =
     (if \<not> truthy (installedAppId h) \<or> \<not> truthy (authToken h) then ({}, h)
      else
        case axios e ListSubscriptions h of
          (Resolved items, h') \<Rightarrow> (subscribedDeviceIds items, h')
        | (RejectedStatus n, h') \<Rightarrow> ({}, h')
        | (RejectedNoResponse, h') \<Rightarrow> ({}, h'))"

definition deviceSubscriptionRequest :: "string \<Rightarrow> call" where
  "deviceSubscriptionRequest deviceId =
     PostDeviceSubscription deviceId (''homebridge_'' @ take 8 deviceId)"

text \<open>
  \<open>createDeviceSubscription\<close> returns normally (\<open>True\<close>) when the post resolves or is
  answered 409; it rethrows every other error (\<open>False\<close>).
\<close>

definition createDeviceSubscription :: "env \<Rightarrow> string \<Rightarrow> handler \<Rightarrow> bool \<times> handler" where
  "createDeviceSubscription e deviceId h =
     (case axios e (deviceSubscriptionRequest deviceId) h of
        (Resolved items, h') \<Rightarrow> (True, h')
      | (RejectedStatus n, h') \<Rightarrow> (if n = 409 then (True, h') else (False, h'))
      | (RejectedNoResponse, h') \<Rightarrow> (False, h'))"

text \<open>
  The loop \<open>for (const deviceId of ...)\<close> with its \<open>try\<close>/\<open>catch\<close>: a failing create is
  logged and the loop goes on. The number is \<open>successCount\<close>.
\<close>

fun createEach :: "env \<Rightarrow> string list \<Rightarrow> nat \<Rightarrow> handler \<Rightarrow> nat \<times> handler" where
  "createEach e [] successCount h = (successCount, h)"
| "createEach e (deviceId # rest) successCount h =
     (case createDeviceSubscription e deviceId h of
        (True, h') \<Rightarrow> createEach e rest (successCount + 1) h'
      | (False, h') \<Rightarrow> createEach e rest successCount h')"

definition syncDeviceSubscriptions :: "env \<Rightarrow> handler \<Rightarrow> handler" where
  "syncDeviceSubscriptions e h =
     (if \<not> truthy (installedAppId h) \<or> \<not> truthy (authToken h) then h
      else if length (deviceIds h) = 0 then h
      else
        case getExistingSubscriptions e h of
          (existingSubscriptions, h1) \<Rightarrow>
            let missingDeviceIds =
                  filter (\<lambda>id. id \<notin> existingSubscriptions) (deviceIds h1)
            in if length missingDeviceIds = 0 then h1
               else snd (createEach e missingDeviceIds 0 h1))"

definition createDeviceSubscriptions :: "env \<Rightarrow> handler \<Rightarrow> handler" where
  "createDeviceSubscriptions e h =
     (if \<not> truthy (installedAppId h) \<or> \<not> truthy (authToken h) then h
      else if length (deviceIds h) = 0 then h
      else snd (createEach e (deviceIds h) 0 h))"

definition createDeviceLifecycleSubscription :: "env \<Rightarrow> handler \<Rightarrow> handler" where
  "createDeviceLifecycleSubscription e h =
     (if \<not> truthy (installedAppId h) \<or> \<not> truthy (authToken h) \<or> \<not> truthy (locationId h)
      then h
      else snd (axios e (PostLifecycleSubscription (strOf (locationId h))) h))"

definition deleteAllSubscriptions :: "env \<Rightarrow> handler \<Rightarrow> handler" where
  "deleteAllSubscriptions e h =
     (if \<not> truthy (installedAppId h) \<or> \<not> truthy (authToken h) then h
      else snd (axios e DeleteSubscriptions h))"

definition setDeviceIds :: "env \<Rightarrow> string list \<Rightarrow> handler \<Rightarrow> handler" where
  "setDeviceIds e ids h =
     (let h1 = h\<lparr>deviceIds := ids\<rparr> in
      if isInstalled h1 \<and> length ids > 0
      then createDeviceLifecycleSubscription e (syncDeviceSubscriptions e h1)
      else h1)"

definition syncPendingSubscriptions :: "env \<Rightarrow> handler \<Rightarrow> handler" where
  "syncPendingSubscriptions e h =
     (if \<not> isInstalled h \<or> length (deviceIds h) = 0 then h
      else createDeviceLifecycleSubscription e (syncDeviceSubscriptions e h))"

subsection \<open>The lifecycle handlers\<close>

definition handlePing :: "SmartAppRequest \<Rightarrow> handler \<Rightarrow> response \<times> handler" where
  "handlePing request h =
     (case pingData request of
        None \<Rightarrow> (\<lparr>statusCode = 400, body = NoBody\<rparr>, h)
      | Some pd \<Rightarrow>
          if \<not> truthyOpt (challenge pd) then (\<lparr>statusCode = 400, body = NoBody\<rparr>, h)
          else (\<lparr>statusCode = 200, body = PingBody (the (challenge pd))\<rparr>, h))"

definition handleConfirmation :: "env \<Rightarrow> SmartAppRequest \<Rightarrow> handler \<Rightarrow> response \<times> handler" where
  "handleConfirmation e request h =
     (case confirmationData request of
        None \<Rightarrow> (\<lparr>statusCode = 400, body = NoBody\<rparr>, h)
      | Some cd \<Rightarrow>
          if \<not> truthyOpt (confirmationUrl cd) then (\<lparr>statusCode = 400, body = NoBody\<rparr>, h)
          else
            (case axios e (GetUrl (the (confirmationUrl cd))) h of
               (Resolved items, h') \<Rightarrow> (\<lparr>statusCode = 200, body = NoBody\<rparr>, h')
             | (RejectedStatus n, h') \<Rightarrow> (\<lparr>statusCode = 500, body = NoBody\<rparr>, h')
             | (RejectedNoResponse, h') \<Rightarrow> (\<lparr>statusCode = 500, body = NoBody\<rparr>, h')))"

definition handleConfiguration :: "SmartAppRequest \<Rightarrow> handler \<Rightarrow> response \<times> handler" where
  "handleConfiguration request h =
     (case configurationData request of
        None \<Rightarrow> (\<lparr>statusCode = 400, body = NoBody\<rparr>, h)
      | Some configData \<Rightarrow>
          if phase configData = ''INITIALIZE''
          then (\<lparr>statusCode = 200, body = InitializeBody\<rparr>, h)
          else if phase configData = ''PAGE''
          then (\<lparr>statusCode = 200, body = PageBody\<rparr>, h)
          else (\<lparr>statusCode = 200, body = NoBody\<rparr>, h))"

definition handleInstall :: "env \<Rightarrow> SmartAppRequest \<Rightarrow> handler \<Rightarrow> response \<times> handler" where
  "handleInstall e request h =
     (case installData request of
        None \<Rightarrow> (\<lparr>statusCode = 400, body = NoBody\<rparr>, h)
      | Some d \<Rightarrow>
          let h1 = h\<lparr>installedAppId := app_installedAppId (data_installedApp d),
                     authToken := data_authToken d,
                     refreshToken := data_refreshToken d,
                     locationId := app_locationId (data_installedApp d)\<rparr>;
              h2 = saveCredentials e h1;
              h3 = createDeviceSubscriptions e h2;
              h4 = createDeviceLifecycleSubscription e h3
          in (\<lparr>statusCode = 200, body = InstallBody\<rparr>, h4))"

definition handleUpdate :: "env \<Rightarrow> SmartAppRequest \<Rightarrow> handler \<Rightarrow> response \<times> handler" where
  "handleUpdate e request h =
     (case updateData request of
        None \<Rightarrow> (\<lparr>statusCode = 400, body = NoBody\<rparr>, h)
      | Some d \<Rightarrow>
          let h1 = h\<lparr>installedAppId := app_installedAppId (data_installedApp d),
                     authToken := data_authToken d,
                     refreshToken := data_refreshToken d,
                     locationId := app_locationId (data_installedApp d)\<rparr>;
              h2 = saveCredentials e h1;
              h3 = deleteAllSubscriptions e h2;
              h4 = createDeviceSubscriptions e h3;
              h5 = createDeviceLifecycleSubscription e h4
          in (\<lparr>statusCode = 200, body = UpdateBody\<rparr>, h5))"

definition toShortEvent :: "DeviceEvent \<Rightarrow> ShortEvent" where
  "toShortEvent de =
     \<lparr>se_deviceId = de_deviceId de, se_componentId = de_componentId de,
      se_capability = de_capability de, se_attribute = de_attribute de,
      se_value = de_value de\<rparr>"

text \<open>The body of the loop over \<open>eventData.events\<close>.\<close>

definition processEvent :: "env \<Rightarrow> SmartThingsEvent \<Rightarrow> handler \<Rightarrow> handler" where
  "processEvent e event h =
     (if eventType event = ''DEVICE_EVENT'' \<and> deviceEvent event \<noteq> None
      then notifyEventHandlers (toShortEvent (the (deviceEvent event))) h
      else if eventType event = ''DEVICE_LIFECYCLE_EVENT'' \<and> deviceLifecycleEvent event \<noteq> None
      then
        let lifecycleEvent = the (deviceLifecycleEvent event);
            h1 = (if le_lifecycle lifecycleEvent = ''CREATE''
                  then
                    case createDeviceSubscription e (le_deviceId lifecycleEvent) h of
                      (True, h') \<Rightarrow> h'\<lparr>deviceIds := deviceIds h' @ [le_deviceId lifecycleEvent]\<rparr>
                    | (False, h') \<Rightarrow> h'
                  else h)
        in notifyDeviceLifecycleHandlers (le_lifecycle lifecycleEvent)
             (le_deviceId lifecycleEvent) (le_deviceName lifecycleEvent) h1
      else h)"

fun processEvents :: "env \<Rightarrow> SmartThingsEvent list \<Rightarrow> handler \<Rightarrow> handler" where
  "processEvents e [] h = h"
| "processEvents e (event # rest) h = processEvents e rest (processEvent e event h)"

definition handleEvent :: "env \<Rightarrow> SmartAppRequest \<Rightarrow> handler \<Rightarrow> response \<times> handler" where
  "handleEvent e request h =
     (case eventData request of
        None \<Rightarrow> (\<lparr>statusCode = 400, body = NoBody\<rparr>, h)
      | Some ed \<Rightarrow>
          let hadCredentialsBefore = isInstalled h;
              h1 = (if truthyOpt (event_authToken ed) \<and> event_installedApp ed \<noteq> None
                    then
                      let h' = h\<lparr>authToken := Str (the (event_authToken ed)),
                                 installedAppId :=
                                   app_installedAppId (the (event_installedApp ed)),
                                 locationId :=
                                   app_locationId (the (event_installedApp ed))\<rparr>
                      in if \<not> hadCredentialsBefore \<and> length (deviceIds h') > 0
                         then syncPendingSubscriptions e h'
                         else h'
                    else h)
          in (\<lparr>statusCode = 200, body = EventBody\<rparr>, processEvents e (events ed) h1))"

definition handleUninstall :: "env \<Rightarrow> SmartAppRequest \<Rightarrow> handler \<Rightarrow> response \<times> handler" where
  "handleUninstall e request h =
     (let h1 = h\<lparr>installedAppId := Null, authToken := Null,
                 refreshToken := Null, locationId := Null\<rparr>
      in (\<lparr>statusCode = 200, body = UninstallBody\<rparr>, clearCredentials e h1))"

definition handleRequest :: "env \<Rightarrow> SmartAppRequest \<Rightarrow> handler \<Rightarrow> response \<times> handler" where
  "handleRequest e request h =
     (if lifecycle request = ''PING'' then handlePing request h
      else if lifecycle request = ''CONFIRMATION'' then handleConfirmation e request h
      else if lifecycle request = ''CONFIGURATION'' then handleConfiguration request h
      else if lifecycle request = ''INSTALL'' then handleInstall e request h
      else if lifecycle request = ''UPDATE'' then handleUpdate e request h
      else if lifecycle request = ''EVENT'' then handleEvent e request h
      else if lifecycle request = ''UNINSTALL'' then handleUninstall e request h
      else (\<lparr>statusCode = 200, body = NoBody\<rparr>, h))"

section \<open>WebhookServer\<close>

text \<open>
  The server holds a SmartApp handler only in direct webhook mode. \<open>smartapp_id\<close> is
  the configured application id.
\<close>

record WebhookServer =
  smartAppHandler :: "handler option"
  useDirectWebhook :: bool
  smartapp_id :: "string option"

definition newWebhookServer :: "bool \<Rightarrow> string option \<Rightarrow> credentials_file \<Rightarrow> WebhookServer" where
  "newWebhookServer use_direct_webhook app_id file =
     \<lparr>smartAppHandler = (if use_direct_webhook then Some (newHandler file) else None),
      useDirectWebhook = use_direct_webhook,
      smartapp_id = app_id\<rparr>"

datatype endpoint = OAuthCallback | SmartApp | LegacyDeviceEvent | Health | NotFound

text \<open>The routing of \<open>startServer\<close>, by path and method.\<close>

definition route :: "WebhookServer \<Rightarrow> string \<Rightarrow> string \<Rightarrow> endpoint" where
  "route srv pathname method =
     (if pathname = ''/oauth/callback'' then OAuthCallback
      else if pathname = ''/smartapp'' \<or>
              (pathname = ''/'' \<and> useDirectWebhook srv \<and> method = ''POST'') then SmartApp
      else if pathname = ''/'' \<and> method = ''POST'' then LegacyDeviceEvent
      else if pathname = ''/health'' \<or> (pathname = ''/'' \<and> method = ''GET'') then Health
      else NotFound)"

datatype reply_content = ErrorMessage string | LifecycleResponse response

record reply =
  status :: nat
  content :: reply_content

text \<open>
  \<open>handleSmartAppRequest\<close>, once the body has arrived. \<open>JSON_parse\<close> is the JSON parser:
  \<open>None\<close> when \<open>JSON.parse\<close> throws.
\<close>

definition handleSmartAppRequest ::
    "(string \<Rightarrow> SmartAppRequest option) \<Rightarrow> env \<Rightarrow> string \<Rightarrow> WebhookServer
     \<Rightarrow> reply \<times> WebhookServer" where
  "handleSmartAppRequest JSON_parse e body_text srv =
     (case smartAppHandler srv of
        None \<Rightarrow>
          (\<lparr>status = 500, content = ErrorMessage ''SmartApp handler not initialized''\<rparr>, srv)
      | Some h \<Rightarrow>
          (case JSON_parse body_text of
             None \<Rightarrow> (\<lparr>status = 400, content = ErrorMessage ''Invalid request body''\<rparr>, srv)
           | Some request \<Rightarrow>
               if truthyOpt (smartapp_id srv) \<and> appId request \<noteq> smartapp_id srv
               then (\<lparr>status = 403, content = ErrorMessage ''Invalid''\<rparr>, srv)
               else
                 (case handleRequest e request h of
                    (response, h') \<Rightarrow>
                      (\<lparr>status = (if statusCode response = 0 then 200 else statusCode response),
                        content = LifecycleResponse response\<rparr>,
                       srv\<lparr>smartAppHandler := Some h'\<rparr>))))"

section \<open>What a run shows\<close>

text \<open>
  The credentials of the data model, the calls issued between two states of the
  handler, and the events of a message by the branch of the loop that takes them.
\<close>

definition credentials ::
    "handler \<Rightarrow> jsval \<times> jsval \<times> jsval \<times> jsval" where
  "credentials h = (installedAppId h, authToken h, refreshToken h, locationId h)"

definition newCalls :: "handler \<Rightarrow> handler \<Rightarrow> call list" where
  "newCalls h h' = drop (length (outbound h)) (outbound h')"

fun isDeviceCreate :: "call \<Rightarrow> bool" where
  "isDeviceCreate (PostDeviceSubscription d n) = True"
| "isDeviceCreate c = False"

definition createCalls :: "handler \<Rightarrow> handler \<Rightarrow> call list" where
  "createCalls h h' = filter isDeviceCreate (newCalls h h')"

text \<open>A create is accepted when the post resolves or is answered 409.\<close>

fun createAccepted :: "http_result \<Rightarrow> bool" where
  "createAccepted (Resolved items) = True"
| "createAccepted (RejectedStatus n) = (n = 409)"
| "createAccepted RejectedNoResponse = False"





definition deliveries :: "nat list \<Rightarrow> ShortEvent list \<Rightarrow> (nat \<times> ShortEvent) list" where
  "deliveries ks ses = concat (map (\<lambda>se. map (\<lambda>k. (k, se)) ks) ses)"



text \<open>What \<open>saveCredentials\<close> writes for a handler at a given time.\<close>

definition snapshot :: "handler \<Rightarrow> int \<Rightarrow> SavedCredentials" where
  "snapshot h t =
     \<lparr>saved_installedAppId = installedAppId h, saved_authToken = authToken h,
      saved_refreshToken = refreshToken h, saved_locationId = locationId h, savedAt = t\<rparr>"

text \<open>
  A credentials file from which \<open>loadCredentials\<close> takes both the installed app id and
  the token, or neither.
\<close>

fun consistent_file :: "credentials_file \<Rightarrow> bool" where
  "consistent_file NoCredentialsFile = True"
| "consistent_file UnparsableCredentialsFile = True"
| "consistent_file (CredentialsJson d) =
     (truthy (saved_installedAppId d) = truthy (saved_authToken d))"

text \<open>What each function leaves alone: the credentials and the credentials file.\<close>

definition kept :: "handler \<Rightarrow> handler \<Rightarrow> bool" where
  "kept h h' = (credentials h' = credentials h \<and> credentialsFile h' = credentialsFile h)"

text \<open>
  The invariant of the credentials: the installed app id and the token are both
  strings, or both \<open>null\<close>.
\<close>

fun isStr :: "jsval \<Rightarrow> bool" where
  "isStr (Str s) = True"
| "isStr v = False"

definition set_together :: "handler \<Rightarrow> bool" where
  "set_together h =
     ((isStr (installedAppId h) \<and> isStr (authToken h)) \<or>
      (installedAppId h = Null \<and> authToken h = Null))"

text \<open>The operations on a running handler, and a run of them.\<close>

datatype operation =
    Message env SmartAppRequest
  | SetDeviceIds env "string list"
  | AddEventHandler nat
  | AddDeviceLifecycleHandler nat

fun perform :: "operation \<Rightarrow> handler \<Rightarrow> handler" where
  "perform (Message e request) h = snd (handleRequest e request h)"
| "perform (SetDeviceIds e ids) h = setDeviceIds e ids h"
| "perform (AddEventHandler k) h = addEventHandler k h"
| "perform (AddDeviceLifecycleHandler k) h = addDeviceLifecycleHandler k h"

fun run :: "operation list \<Rightarrow> handler \<Rightarrow> handler" where
  "run [] h = h"
| "run (op # ops) h = run ops (perform op h)"

text \<open>
  A message that carries its credentials as the declared types have them: the
  \<open>authToken\<close> and the \<open>installedAppId\<close> of an INSTALL or UPDATE payload are strings,
  and so is the \<open>installedAppId\<close> of the installed app of an EVENT payload.
\<close>

definition payload_typed :: "InstallData option \<Rightarrow> bool" where
  "payload_typed p =
     (case p of
        None \<Rightarrow> True
      | Some d \<Rightarrow> isStr (data_authToken d) \<and> isStr (app_installedAppId (data_installedApp d)))"

definition event_typed :: "EventData option \<Rightarrow> bool" where
  "event_typed p =
     (case p of
        None \<Rightarrow> True
      | Some ed \<Rightarrow>
          (case event_installedApp ed of
             None \<Rightarrow> True
           | Some app \<Rightarrow> isStr (app_installedAppId app)))"

definition declared_types :: "SmartAppRequest \<Rightarrow> bool" where
  "declared_types request =
     (if lifecycle request = ''INSTALL'' then payload_typed (installData request)
      else if lifecycle request = ''UPDATE'' then payload_typed (updateData request)
      else if lifecycle request = ''EVENT'' then event_typed (eventData request)
      else True)"

fun declared_op :: "operation \<Rightarrow> bool" where
  "declared_op (Message e request) = declared_types request"
| "declared_op op = True"

section \<open>Concrete messages and states\<close>

text \<open>A remote that resolves every call with an empty list, a working disk.\<close>

definition quiet_env :: env where
  "quiet_env = \<lparr>remote = (\<lambda>n. Resolved []), fs_ok = True, clock = 1000\<rparr>"

definition home_app :: InstalledApp where
  "home_app = \<lparr>app_installedAppId = Str ''app-1'', app_locationId = Str ''loc-1''\<rparr>"

definition empty_request :: "string \<Rightarrow> SmartAppRequest" where
  "empty_request lc =
     \<lparr>lifecycle = lc, appId = None, pingData = None, confirmationData = None,
      configurationData = None, installData = None, updateData = None, eventData = None\<rparr>"

definition install_request :: "string \<Rightarrow> SmartAppRequest" where
  "install_request token =
     (empty_request ''INSTALL'')
       \<lparr>installData :=
          Some \<lparr>data_authToken = Str token, data_refreshToken = Str ''refresh-1'',
                data_installedApp = home_app\<rparr>\<rparr>"

text \<open>An INSTALL message whose token is any value: \<open>null\<close>, missing, or a string.\<close>

definition install_request_with :: "jsval \<Rightarrow> SmartAppRequest" where
  "install_request_with token =
     (empty_request ''INSTALL'')
       \<lparr>installData :=
          Some \<lparr>data_authToken = token, data_refreshToken = Str ''refresh-1'',
                data_installedApp = home_app\<rparr>\<rparr>"

definition update_request :: "string \<Rightarrow> SmartAppRequest" where
  "update_request token =
     (empty_request ''UPDATE'')
       \<lparr>updateData :=
          Some \<lparr>data_authToken = Str token, data_refreshToken = Str ''refresh-2'',
                data_installedApp = home_app\<rparr>\<rparr>"

definition event_request :: "string option \<Rightarrow> SmartThingsEvent list \<Rightarrow> SmartAppRequest" where
  "event_request token evs =
     (empty_request ''EVENT'')
       \<lparr>eventData :=
          Some \<lparr>event_authToken = token, event_installedApp = Some home_app, events = evs\<rparr>\<rparr>"

definition ping_request :: "string option \<Rightarrow> SmartAppRequest" where
  "ping_request c = (empty_request ''PING'')\<lparr>pingData := Some \<lparr>challenge = c\<rparr>\<rparr>"

definition lifecycle_create :: "string \<Rightarrow> SmartThingsEvent" where
  "lifecycle_create d =
     \<lparr>eventType = ''DEVICE_LIFECYCLE_EVENT'', deviceEvent = None,
      deviceLifecycleEvent =
        Some \<lparr>le_lifecycle = ''CREATE'', le_deviceId = d, le_deviceName = None\<rparr>\<rparr>"

definition switch_event :: "string \<Rightarrow> string \<Rightarrow> SmartThingsEvent" where
  "switch_event d v =
     \<lparr>eventType = ''DEVICE_EVENT'',
      deviceEvent =
        Some \<lparr>de_deviceId = d, de_componentId = ''main'', de_capability = ''switch'',
              de_attribute = ''switch'', de_value = v\<rparr>,
      deviceLifecycleEvent = None\<rparr>"

text \<open>Two answers of the list call: one device subscribed, both devices subscribed.\<close>

definition one_subscribed :: "RemoteSubscription list" where
  "one_subscribed =
     [\<lparr>sub_sourceType = ''DEVICE'', sub_deviceId = Some ''device-1''\<rparr>,
      \<lparr>sub_sourceType = ''DEVICE_LIFECYCLE'', sub_deviceId = None\<rparr>]"

definition both_subscribed :: "RemoteSubscription list" where
  "both_subscribed =
     [\<lparr>sub_sourceType = ''DEVICE'', sub_deviceId = Some ''device-2''\<rparr>,
      \<lparr>sub_sourceType = ''DEVICE_LIFECYCLE'', sub_deviceId = None\<rparr>,
      \<lparr>sub_sourceType = ''DEVICE'', sub_deviceId = Some ''device-1''\<rparr>]"

definition listing_env :: "RemoteSubscription list \<Rightarrow> env" where
  "listing_env items = \<lparr>remote = (\<lambda>n. Resolved items), fs_ok = True, clock = 1500\<rparr>"

text \<open>A remote that answers every call 409.\<close>

definition conflict_env :: env where
  "conflict_env = \<lparr>remote = (\<lambda>n. RejectedStatus 409), fs_ok = True, clock = 2000\<rparr>"

text \<open>
  A stand-in for \<open>JSON.parse\<close> that knows one body, a PING message, and throws on
  every other text.
\<close>

definition stub_JSON_parse :: "string \<Rightarrow> SmartAppRequest option" where
  "stub_JSON_parse text =
     (if text = ''{\"lifecycle\":\"PING\",\"pingData\":{\"challenge\":\"abc\"}}''
      then Some (ping_request (Some ''abc''))
      else None)"

text \<open>
  A handler that was told about \<open>device-1\<close> before it had credentials and then
  received an EVENT announcing the creation of \<open>device-1\<close>.
\<close>

definition twice_registered :: handler where
  "twice_registered =
     run [SetDeviceIds quiet_env [''device-1''],
          Message quiet_env (event_request (Some ''token-1'') [lifecycle_create ''device-1''])]
       (newHandler NoCredentialsFile)"

text \<open>A credentials file with all four values, as an earlier INSTALL left it.\<close>

definition earlier_file :: credentials_file where
  "earlier_file =
     CredentialsJson
       \<lparr>saved_installedAppId = Str ''app-0'', saved_authToken = Str ''token-0'',
        saved_refreshToken = Str ''refresh-0'', saved_locationId = Str ''loc-0'',
        savedAt = 500\<rparr>"

text \<open>An installed handler with two registered devices and one event handler.\<close>

definition two_devices :: handler where
  "two_devices =
     run [AddEventHandler 0,
          SetDeviceIds quiet_env [''device-1'', ''device-2''],
          Message quiet_env (install_request ''token-1'')]
       (newHandler NoCredentialsFile)"

section \<open>Properties of the crash log\<close>

lemma readCrashLog_writeCrashLog:
  "readCrashLog (writeCrashLog True l f) = drop (length l - MAX_LOG_ENTRIES) l"
  by (simp add: writeCrashLog_def)

lemma recordPotentialCrash_bounded:
  "length (readCrashLog f) \<le> MAX_LOG_ENTRIES \<Longrightarrow>
   length (readCrashLog (recordPotentialCrash w now et f)) \<le> MAX_LOG_ENTRIES"
  by (cases w) (auto simp: recordPotentialCrash_def writeCrashLog_def)

lemma recordAll_bounded:
  "length (readCrashLog f) \<le> MAX_LOG_ENTRIES \<Longrightarrow>
   length (readCrashLog (recordAll calls f)) \<le> MAX_LOG_ENTRIES"
proof (induction calls arbitrary: f)
  case Nil
  then show ?case by simp
next
  case (Cons c calls)
  obtain w now et where c: "c = (w, now, et)" by (cases c)
  from Cons.prems have "length (readCrashLog (recordPotentialCrash w now et f)) \<le> MAX_LOG_ENTRIES"
    by (rule recordPotentialCrash_bounded)
  then show ?case using Cons.IH c by simp
qed

lemma spec_relevant_count_eq:
  "spec_relevant_count now config es = length (filter (recentRelevant now config) es)"
proof -
  have "(\<lambda>c. now - timestamp c \<le> timeWindowMinutes config * 60000 \<and>
             (relevantErrorTypes config = [] \<or> errorType c \<in> set (relevantErrorTypes config)))
        = recentRelevant now config"
    by (rule ext) (simp add: recentRelevant_def mult.commute)
  then show ?thesis by (simp add: spec_relevant_count_def)
qed

section \<open>The outbound calls of the subscription functions\<close>

lemma createDeviceSubscription_result:
  "createDeviceSubscription e d h =
     (createAccepted (remote e (length (outbound h))),
      h\<lparr>outbound := outbound h @ [deviceSubscriptionRequest d]\<rparr>)"
  by (cases "remote e (length (outbound h))")
     (simp_all add: createDeviceSubscription_def axios_def)

lemma createEach_state:
  "snd (createEach e ds n h) = h\<lparr>outbound := outbound h @ map deviceSubscriptionRequest ds\<rparr>"
proof (induction ds arbitrary: n h)
  case Nil
  then show ?case by simp
next
  case (Cons d ds)
  show ?case
    by (cases "createAccepted (remote e (length (outbound h)))")
       (simp_all add: createDeviceSubscription_result Cons.IH)
qed

lemma createEach_count:
  "\<forall>i < length ds. createAccepted (remote e (length (outbound h) + i)) \<Longrightarrow>
   fst (createEach e ds n h) = n + length ds"
proof (induction ds arbitrary: n h)
  case Nil
  then show ?case by simp
next
  case (Cons d ds)
  from Cons.prems have first: "createAccepted (remote e (length (outbound h)))"
    by force
  have rest: "\<forall>i < length ds. createAccepted
      (remote e (length (outbound (h\<lparr>outbound := outbound h @ [deviceSubscriptionRequest d]\<rparr>)) + i))"
  proof (intro allI impI)
    fix i assume "i < length ds"
    then have "Suc i < length (d # ds)" by simp
    with Cons.prems have "createAccepted (remote e (length (outbound h) + Suc i))" by blast
    then show "createAccepted
      (remote e (length (outbound (h\<lparr>outbound := outbound h @ [deviceSubscriptionRequest d]\<rparr>)) + i))"
      by simp
  qed
  show ?case
    using first Cons.IH [OF rest] by (simp add: createDeviceSubscription_result)
qed

lemma getExistingSubscriptions_state:
  "snd (getExistingSubscriptions e h) =
     (if truthy (installedAppId h) \<and> truthy (authToken h)
      then h\<lparr>outbound := outbound h @ [ListSubscriptions]\<rparr> else h)"
  by (cases "remote e (length (outbound h))")
     (simp_all add: getExistingSubscriptions_def axios_def)

lemma getExistingSubscriptions_resolved:
  "truthy (installedAppId h) \<Longrightarrow> truthy (authToken h) \<Longrightarrow>
   remote e (length (outbound h)) = Resolved items \<Longrightarrow>
   getExistingSubscriptions e h =
     (subscribedDeviceIds items, h\<lparr>outbound := outbound h @ [ListSubscriptions]\<rparr>)"
  by (simp add: getExistingSubscriptions_def axios_def)

lemma syncDeviceSubscriptions_frame:
  "\<exists>cs. syncDeviceSubscriptions e h = h\<lparr>outbound := outbound h @ cs\<rparr>"
proof (cases "truthy (installedAppId h) \<and> truthy (authToken h) \<and> deviceIds h \<noteq> []")
  case False
  then have "syncDeviceSubscriptions e h = h\<lparr>outbound := outbound h @ []\<rparr>"
    by (auto simp: syncDeviceSubscriptions_def)
  then show ?thesis by blast
next
  case True
  obtain R h1 where g: "getExistingSubscriptions e h = (R, h1)"
    by (cases "getExistingSubscriptions e h")
  have h1: "h1 = h\<lparr>outbound := outbound h @ [ListSubscriptions]\<rparr>"
    using getExistingSubscriptions_state [of e h] g True by simp
  have "syncDeviceSubscriptions e h =
        h\<lparr>outbound := outbound h @
            ([ListSubscriptions] @ map deviceSubscriptionRequest [d \<leftarrow> deviceIds h. d \<notin> R])\<rparr>"
    using True g by (simp add: syncDeviceSubscriptions_def Let_def createEach_state h1)
  then show ?thesis by blast
qed

lemma syncDeviceSubscriptions_resolved:
  assumes "truthy (installedAppId h)" and "truthy (authToken h)"
    and "remote e (length (outbound h)) = Resolved items"
  shows "syncDeviceSubscriptions e h =
     h\<lparr>outbound := outbound h @
         (if deviceIds h = [] then []
          else ListSubscriptions #
               map deviceSubscriptionRequest
                 [d \<leftarrow> deviceIds h. d \<notin> subscribedDeviceIds items])\<rparr>"
  using assms
  by (simp add: syncDeviceSubscriptions_def Let_def createEach_state
      getExistingSubscriptions_resolved)

lemma filter_isDeviceCreate_requests:
  "filter isDeviceCreate (map deviceSubscriptionRequest ds) = map deviceSubscriptionRequest ds"
  by (induction ds) (simp_all add: deviceSubscriptionRequest_def)

lemma newCalls_append: "newCalls h (h\<lparr>outbound := outbound h @ cs\<rparr>) = cs"
  by (simp add: newCalls_def)

lemma length_missing_card:
  "distinct ds \<Longrightarrow> length [d \<leftarrow> ds. d \<notin> R] = card (set ds - R)"
proof -
  assume "distinct ds"
  then have "distinct [d \<leftarrow> ds. d \<notin> R]" by simp
  then have "length [d \<leftarrow> ds. d \<notin> R] = card (set [d \<leftarrow> ds. d \<notin> R])"
    by (rule distinct_card [symmetric])
  also have "set [d \<leftarrow> ds. d \<notin> R] = set ds - R" by auto
  finally show ?thesis .
qed

section \<open>Evaluating concrete runs\<close>

lemmas concrete_defs = quiet_env_def home_app_def empty_request_def install_request_def
  install_request_with_def update_request_def event_request_def ping_request_def lifecycle_create_def switch_event_def

lemmas handler_defs = newHandler_def loadCredentials_def setDeviceIds_def isInstalled_def
  handleRequest_def handleEvent_def handleInstall_def syncPendingSubscriptions_def
  syncDeviceSubscriptions_def createDeviceLifecycleSubscription_def createDeviceSubscriptions_def
  getExistingSubscriptions_def axios_def truthyOpt_def processEvent_def saveCredentials_def
  createDeviceSubscription_def notifyDeviceLifecycleHandlers_def notifyEventHandlers_def
  addEventHandler_def subscribedDeviceIds_def

lemma twice_registered_eq:
  "twice_registered =
     \<lparr>installedAppId = Str ''app-1'', authToken = Str ''token-1'', refreshToken = Null,
      locationId = Str ''loc-1'', eventHandlers = [], deviceLifecycleHandlers = [],
      deviceIds = [''device-1'', ''device-1''], credentialsFile = NoCredentialsFile,
      outbound = [ListSubscriptions, deviceSubscriptionRequest ''device-1'',
                  PostLifecycleSubscription ''loc-1'', deviceSubscriptionRequest ''device-1''],
      delivered = [], lifecycleDelivered = []\<rparr>"
  by (simp add: twice_registered_def concrete_defs handler_defs Let_def)

lemma two_devices_eq:
  "two_devices =
     \<lparr>installedAppId = Str ''app-1'', authToken = Str ''token-1'',
      refreshToken = Str ''refresh-1'', locationId = Str ''loc-1'',
      eventHandlers = [0], deviceLifecycleHandlers = [],
      deviceIds = [''device-1'', ''device-2''],
      credentialsFile =
        CredentialsJson
          \<lparr>saved_installedAppId = Str ''app-1'', saved_authToken = Str ''token-1'',
           saved_refreshToken = Str ''refresh-1'', saved_locationId = Str ''loc-1'',
           savedAt = 1000\<rparr>,
      outbound = [deviceSubscriptionRequest ''device-1'', deviceSubscriptionRequest ''device-2'',
                  PostLifecycleSubscription ''loc-1''],
      delivered = [], lifecycleDelivered = []\<rparr>"
  by (simp add: two_devices_def concrete_defs handler_defs Let_def)

section \<open>The claim about reconciliation\<close>

text \<open>
  C1, as amended. With credentials present and the remote list call returning its
  items, \<open>syncDeviceSubscriptions\<close> issues one create call for every entry of the
  registration list \<open>deviceIds\<close> whose id is not among the device ids of the DEVICE
  subscriptions returned, in the order of the list. That is \<open>|D - R|\<close> calls when no
  id is registered twice, and no call when every registered id is in \<open>R\<close>.
\<close>

theorem syncDeviceSubscriptions_creates_missing:
  assumes "truthy (installedAppId h)" and "truthy (authToken h)"
    and "remote e (length (outbound h)) = Resolved items"
  shows "createCalls h (syncDeviceSubscriptions e h) =
           map deviceSubscriptionRequest
             [d \<leftarrow> deviceIds h. d \<notin> subscribedDeviceIds items]
         \<and> (distinct (deviceIds h) \<longrightarrow>
              length (createCalls h (syncDeviceSubscriptions e h)) =
                card (set (deviceIds h) - subscribedDeviceIds items))
         \<and> (set (deviceIds h) \<subseteq> subscribedDeviceIds items \<longrightarrow>
              createCalls h (syncDeviceSubscriptions e h) = [])"
proof -
  let ?R = "subscribedDeviceIds items"
  have calls: "createCalls h (syncDeviceSubscriptions e h) =
           map deviceSubscriptionRequest [d \<leftarrow> deviceIds h. d \<notin> ?R]"
    unfolding createCalls_def syncDeviceSubscriptions_resolved [OF assms] newCalls_append
    by (simp add: filter_isDeviceCreate_requests)
  have sub: "set (deviceIds h) \<subseteq> ?R \<Longrightarrow> [d \<leftarrow> deviceIds h. d \<notin> ?R] = []"
    by (auto simp: filter_empty_conv)
  show ?thesis
    using calls sub by (simp add: length_missing_card)
qed

theorem syncDeviceSubscriptions_creates_missing_witness:
  "truthy (installedAppId two_devices) \<and> truthy (authToken two_devices) \<and>
   remote (listing_env one_subscribed) (length (outbound two_devices)) =
     Resolved one_subscribed \<and>
   createCalls two_devices (syncDeviceSubscriptions (listing_env one_subscribed) two_devices) =
     [deviceSubscriptionRequest ''device-2''] \<and>
   distinct (deviceIds two_devices) \<and>
   card (set (deviceIds two_devices) - subscribedDeviceIds one_subscribed) = 1 \<and>
   remote (listing_env both_subscribed) (length (outbound two_devices)) =
     Resolved both_subscribed \<and>
   set (deviceIds two_devices) \<subseteq> subscribedDeviceIds both_subscribed \<and>
   createCalls two_devices (syncDeviceSubscriptions (listing_env both_subscribed) two_devices) =
     []"
proof -
  have a: "truthy (installedAppId two_devices)" and b: "truthy (authToken two_devices)"
    by (simp_all add: two_devices_eq)
  have c1: "remote (listing_env one_subscribed) (length (outbound two_devices)) =
            Resolved one_subscribed"
    and c2: "remote (listing_env both_subscribed) (length (outbound two_devices)) =
            Resolved both_subscribed"
    by (simp_all add: listing_env_def)
  have r1: "subscribedDeviceIds one_subscribed = {''device-1''}"
    by (simp add: subscribedDeviceIds_def one_subscribed_def truthyOpt_def)
  have r2: "subscribedDeviceIds both_subscribed = {''device-2'', ''device-1''}"
    by (simp add: subscribedDeviceIds_def both_subscribed_def truthyOpt_def)
  have ids: "deviceIds two_devices = [''device-1'', ''device-2'']"
    by (simp add: two_devices_eq)
  have d: "distinct (deviceIds two_devices)"
    by (simp add: ids)
  have s: "set (deviceIds two_devices) \<subseteq> subscribedDeviceIds both_subscribed"
    by (simp add: ids r2)
  note one = syncDeviceSubscriptions_creates_missing [OF a b c1]
  note two = syncDeviceSubscriptions_creates_missing [OF a b c2]
  have k1: "createCalls two_devices
              (syncDeviceSubscriptions (listing_env one_subscribed) two_devices) =
            [deviceSubscriptionRequest ''device-2'']"
    using one by (simp add: ids r1)
  have k2: "card (set (deviceIds two_devices) - subscribedDeviceIds one_subscribed) = 1"
    using one d k1 by simp
  have k3: "createCalls two_devices
              (syncDeviceSubscriptions (listing_env both_subscribed) two_devices) = []"
    using two s by blast
  show ?thesis
    using a b c1 c2 d s k1 k2 k3 by blast
qed

text \<open>
  C1 as stated fails when an id is registered twice, which happens when a device the
  handler already knows is announced by a lifecycle CREATE event: the set \<open>D - R\<close> has
  one element, and two create calls are issued.
\<close>

theorem syncDeviceSubscriptions_duplicate_counterexample:
  "truthy (installedAppId twice_registered) \<and> truthy (authToken twice_registered) \<and>
   remote quiet_env (length (outbound twice_registered)) = Resolved [] \<and>
   length (createCalls twice_registered (syncDeviceSubscriptions quiet_env twice_registered)) = 2 \<and>
   card (set (deviceIds twice_registered) - subscribedDeviceIds []) = 1"
proof -
  have a: "truthy (installedAppId twice_registered)" and b: "truthy (authToken twice_registered)"
    by (simp_all add: twice_registered_eq)
  have c: "remote quiet_env (length (outbound twice_registered)) = Resolved []"
    by (simp add: quiet_env_def)
  have d: "syncDeviceSubscriptions quiet_env twice_registered =
           twice_registered\<lparr>outbound := outbound twice_registered @
             [ListSubscriptions, deviceSubscriptionRequest ''device-1'',
              deviceSubscriptionRequest ''device-1'']\<rparr>"
    unfolding syncDeviceSubscriptions_resolved [OF a b c]
    by (simp add: twice_registered_eq subscribedDeviceIds_def)
  have e: "length (createCalls twice_registered
             (syncDeviceSubscriptions quiet_env twice_registered)) = 2"
    unfolding d createCalls_def newCalls_append
    by (simp add: deviceSubscriptionRequest_def)
  have f: "card (set (deviceIds twice_registered) - subscribedDeviceIds []) = 1"
    by (simp add: twice_registered_eq subscribedDeviceIds_def)
  show ?thesis using a b c e f by simp
qed

section \<open>What the handlers leave alone\<close>

text \<open>The subscription functions change nothing but the log of outbound calls.\<close>

lemma createDeviceSubscriptions_frame:
  "\<exists>cs. createDeviceSubscriptions e h = h\<lparr>outbound := outbound h @ cs\<rparr>"
proof (cases "truthy (installedAppId h) \<and> truthy (authToken h) \<and> deviceIds h \<noteq> []")
  case False
  then have "createDeviceSubscriptions e h = h\<lparr>outbound := outbound h @ []\<rparr>"
    by (auto simp: createDeviceSubscriptions_def)
  then show ?thesis by blast
next
  case True
  then have "createDeviceSubscriptions e h =
             h\<lparr>outbound := outbound h @ map deviceSubscriptionRequest (deviceIds h)\<rparr>"
    by (simp add: createDeviceSubscriptions_def createEach_state)
  then show ?thesis by blast
qed

lemma createDeviceLifecycleSubscription_frame:
  "\<exists>cs. createDeviceLifecycleSubscription e h = h\<lparr>outbound := outbound h @ cs\<rparr>"
proof (cases "truthy (installedAppId h) \<and> truthy (authToken h) \<and> truthy (locationId h)")
  case False
  then have "createDeviceLifecycleSubscription e h = h\<lparr>outbound := outbound h @ []\<rparr>"
    by (auto simp: createDeviceLifecycleSubscription_def)
  then show ?thesis by blast
next
  case True
  then have "createDeviceLifecycleSubscription e h =
             h\<lparr>outbound := outbound h @ [PostLifecycleSubscription (strOf (locationId h))]\<rparr>"
    by (simp add: createDeviceLifecycleSubscription_def axios_def)
  then show ?thesis by blast
qed

lemma deleteAllSubscriptions_frame:
  "\<exists>cs. deleteAllSubscriptions e h = h\<lparr>outbound := outbound h @ cs\<rparr>"
proof (cases "truthy (installedAppId h) \<and> truthy (authToken h)")
  case False
  then have "deleteAllSubscriptions e h = h\<lparr>outbound := outbound h @ []\<rparr>"
    by (auto simp: deleteAllSubscriptions_def)
  then show ?thesis by blast
next
  case True
  then have "deleteAllSubscriptions e h = h\<lparr>outbound := outbound h @ [DeleteSubscriptions]\<rparr>"
    by (simp add: deleteAllSubscriptions_def axios_def)
  then show ?thesis by blast
qed

lemma frame_compose:
  assumes "\<And>h. \<exists>cs. f h = h\<lparr>outbound := outbound h @ cs\<rparr>"
    and "\<And>h. \<exists>cs. g h = h\<lparr>outbound := outbound h @ cs\<rparr>"
  shows "\<exists>cs. g (f h) = h\<lparr>outbound := outbound h @ cs\<rparr>"
proof -
  obtain cs where f: "f h = h\<lparr>outbound := outbound h @ cs\<rparr>" using assms(1) by blast
  obtain cs' where g: "g (f h) = (f h)\<lparr>outbound := outbound (f h) @ cs'\<rparr>"
    using assms(2) by blast
  have "g (f h) = h\<lparr>outbound := outbound h @ (cs @ cs')\<rparr>"
    using g f by simp
  then show ?thesis by blast
qed

lemma syncPendingSubscriptions_frame:
  "\<exists>cs. syncPendingSubscriptions e h = h\<lparr>outbound := outbound h @ cs\<rparr>"
proof (cases "\<not> isInstalled h \<or> length (deviceIds h) = 0")
  case True
  then have "syncPendingSubscriptions e h = h\<lparr>outbound := outbound h @ []\<rparr>"
    by (auto simp: syncPendingSubscriptions_def)
  then show ?thesis by blast
next
  case False
  then have "syncPendingSubscriptions e h =
             createDeviceLifecycleSubscription e (syncDeviceSubscriptions e h)"
    by (auto simp: syncPendingSubscriptions_def)
  then show ?thesis
    using frame_compose [of "syncDeviceSubscriptions e" "createDeviceLifecycleSubscription e" h]
      syncDeviceSubscriptions_frame createDeviceLifecycleSubscription_frame
    by simp
qed

lemma kept_refl [simp]: "kept h h"
  by (simp add: kept_def)

lemma kept_trans: "kept h h' \<Longrightarrow> kept h' h'' \<Longrightarrow> kept h h''"
  by (simp add: kept_def)

lemma frame_kept: "h' = h\<lparr>outbound := outbound h @ cs\<rparr> \<Longrightarrow> kept h h'"
  by (simp add: kept_def credentials_def)

lemma kept_sync: "kept h (syncDeviceSubscriptions e h)"
  using syncDeviceSubscriptions_frame [of e h] frame_kept by blast

lemma kept_syncPending: "kept h (syncPendingSubscriptions e h)"
  using syncPendingSubscriptions_frame [of e h] frame_kept by blast

lemma kept_createAll: "kept h (createDeviceSubscriptions e h)"
  using createDeviceSubscriptions_frame [of e h] frame_kept by blast

lemma kept_createLifecycle: "kept h (createDeviceLifecycleSubscription e h)"
  using createDeviceLifecycleSubscription_frame [of e h] frame_kept by blast

lemma kept_deleteAll: "kept h (deleteAllSubscriptions e h)"
  using deleteAllSubscriptions_frame [of e h] frame_kept by blast

lemma kept_processEvent: "kept h (processEvent e ev h)"
  by (cases "createAccepted (remote e (length (outbound h)))")
     (simp_all add: processEvent_def kept_def credentials_def notifyEventHandlers_def
       notifyDeviceLifecycleHandlers_def createDeviceSubscription_result Let_def)

lemma kept_processEvents: "kept h (processEvents e evs h)"
proof (induction evs arbitrary: h)
  case Nil
  show ?case by simp
next
  case (Cons ev evs)
  have "kept h (processEvent e ev h)" by (rule kept_processEvent)
  moreover have "kept (processEvent e ev h) (processEvents e evs (processEvent e ev h))"
    by (rule Cons.IH)
  ultimately show ?case using kept_trans by simp
qed

lemma kept_setDeviceIds: "kept h (setDeviceIds e ids h)"
proof -
  let ?h1 = "h\<lparr>deviceIds := ids\<rparr>"
  have a: "kept h ?h1" by (simp add: kept_def credentials_def)
  have "kept ?h1 (createDeviceLifecycleSubscription e (syncDeviceSubscriptions e ?h1))"
    using kept_sync kept_createLifecycle kept_trans by blast
  with a have "kept h (createDeviceLifecycleSubscription e (syncDeviceSubscriptions e ?h1))"
    using kept_trans by blast
  with a show ?thesis by (simp add: setDeviceIds_def Let_def)
qed

lemma kept_install_tail:
  "kept h (createDeviceLifecycleSubscription e (createDeviceSubscriptions e h))"
  by (rule kept_trans [OF kept_createAll kept_createLifecycle])

lemma kept_update_tail:
  "kept h (createDeviceLifecycleSubscription e
             (createDeviceSubscriptions e (deleteAllSubscriptions e h)))"
  by (rule kept_trans [OF kept_deleteAll kept_install_tail])

lemma handleInstall_unfold:
  "installData request = Some d \<Longrightarrow>
   handleInstall e request h =
     (\<lparr>statusCode = 200, body = InstallBody\<rparr>,
      createDeviceLifecycleSubscription e
        (createDeviceSubscriptions e
          (saveCredentials e
            (h\<lparr>installedAppId := app_installedAppId (data_installedApp d),
               authToken := data_authToken d,
               refreshToken := data_refreshToken d,
               locationId := app_locationId (data_installedApp d)\<rparr>))))"
  unfolding handleInstall_def Let_def by simp


lemma handleUpdate_unfold:
  "updateData request = Some d \<Longrightarrow>
   handleUpdate e request h =
     (\<lparr>statusCode = 200, body = UpdateBody\<rparr>,
      createDeviceLifecycleSubscription e
        (createDeviceSubscriptions e
          (deleteAllSubscriptions e
            (saveCredentials e
              (h\<lparr>installedAppId := app_installedAppId (data_installedApp d),
                 authToken := data_authToken d,
                 refreshToken := data_refreshToken d,
                 locationId := app_locationId (data_installedApp d)\<rparr>)))))"
  unfolding handleUpdate_def Let_def by simp

lemma saveCredentials_credentials: "credentials (saveCredentials e h) = credentials h"
  by (simp add: saveCredentials_def credentials_def)

lemma saveCredentials_file:
  "credentialsFile (saveCredentials e h) =
     (if fs_ok e then CredentialsJson (snapshot h (clock e)) else credentialsFile h)"
  by (simp add: saveCredentials_def snapshot_def)

lemma handleInstall_stored:
  assumes "installData request = Some d"
  shows "fst (handleInstall e request h) = \<lparr>statusCode = 200, body = InstallBody\<rparr>"
    and "credentials (snd (handleInstall e request h)) =
           (app_installedAppId (data_installedApp d), data_authToken d,
            data_refreshToken d, app_locationId (data_installedApp d))"
    and "credentialsFile (snd (handleInstall e request h)) =
           (if fs_ok e
            then CredentialsJson (snapshot (snd (handleInstall e request h)) (clock e))
            else credentialsFile h)"
proof -
  let ?h1 = "h\<lparr>installedAppId := app_installedAppId (data_installedApp d),
               authToken := data_authToken d,
               refreshToken := data_refreshToken d,
               locationId := app_locationId (data_installedApp d)\<rparr>"
  let ?h2 = "saveCredentials e ?h1"
  let ?h4 = "createDeviceLifecycleSubscription e (createDeviceSubscriptions e ?h2)"
  note res = handleInstall_unfold [OF assms, of e h]
  have k: "kept ?h2 ?h4" by (rule kept_install_tail)
  have c1: "credentials ?h1 =
           (app_installedAppId (data_installedApp d), data_authToken d,
            data_refreshToken d, app_locationId (data_installedApp d))"
    by (simp add: credentials_def)
  have kc: "credentials ?h4 = credentials ?h1"
    using k by (simp only: kept_def saveCredentials_credentials)
  have kf: "credentialsFile ?h4 = credentialsFile ?h2"
    using k by (simp only: kept_def)
  have snap: "snapshot ?h4 (clock e) = snapshot ?h1 (clock e)"
    using kc by (simp only: snapshot_def credentials_def prod.inject)
  have f1: "credentialsFile ?h1 = credentialsFile h" by simp
  show "fst (handleInstall e request h) = \<lparr>statusCode = 200, body = InstallBody\<rparr>"
    by (simp only: res fst_conv)
  show "credentials (snd (handleInstall e request h)) =
           (app_installedAppId (data_installedApp d), data_authToken d,
            data_refreshToken d, app_locationId (data_installedApp d))"
    by (simp only: res snd_conv kc c1)
  show "credentialsFile (snd (handleInstall e request h)) =
           (if fs_ok e
            then CredentialsJson (snapshot (snd (handleInstall e request h)) (clock e))
            else credentialsFile h)"
    by (simp only: res snd_conv kf saveCredentials_file snap f1)
qed

lemma handleUpdate_stored:
  assumes "updateData request = Some d"
  shows "fst (handleUpdate e request h) = \<lparr>statusCode = 200, body = UpdateBody\<rparr>"
    and "credentials (snd (handleUpdate e request h)) =
           (app_installedAppId (data_installedApp d), data_authToken d,
            data_refreshToken d, app_locationId (data_installedApp d))"
    and "credentialsFile (snd (handleUpdate e request h)) =
           (if fs_ok e
            then CredentialsJson (snapshot (snd (handleUpdate e request h)) (clock e))
            else credentialsFile h)"
proof -
  let ?h1 = "h\<lparr>installedAppId := app_installedAppId (data_installedApp d),
               authToken := data_authToken d,
               refreshToken := data_refreshToken d,
               locationId := app_locationId (data_installedApp d)\<rparr>"
  let ?h2 = "saveCredentials e ?h1"
  let ?h4 = "createDeviceLifecycleSubscription e
      (createDeviceSubscriptions e (deleteAllSubscriptions e ?h2))"
  note res = handleUpdate_unfold [OF assms, of e h]
  have k: "kept ?h2 ?h4" by (rule kept_update_tail)
  have c1: "credentials ?h1 =
           (app_installedAppId (data_installedApp d), data_authToken d,
            data_refreshToken d, app_locationId (data_installedApp d))"
    by (simp add: credentials_def)
  have kc: "credentials ?h4 = credentials ?h1"
    using k by (simp only: kept_def saveCredentials_credentials)
  have kf: "credentialsFile ?h4 = credentialsFile ?h2"
    using k by (simp only: kept_def)
  have snap: "snapshot ?h4 (clock e) = snapshot ?h1 (clock e)"
    using kc by (simp only: snapshot_def credentials_def prod.inject)
  have f1: "credentialsFile ?h1 = credentialsFile h" by simp
  show "fst (handleUpdate e request h) = \<lparr>statusCode = 200, body = UpdateBody\<rparr>"
    by (simp only: res fst_conv)
  show "credentials (snd (handleUpdate e request h)) =
           (app_installedAppId (data_installedApp d), data_authToken d,
            data_refreshToken d, app_locationId (data_installedApp d))"
    by (simp only: res snd_conv kc c1)
  show "credentialsFile (snd (handleUpdate e request h)) =
           (if fs_ok e
            then CredentialsJson (snapshot (snd (handleUpdate e request h)) (clock e))
            else credentialsFile h)"
    by (simp only: res snd_conv kf saveCredentials_file snap f1)
qed


section \<open>The credentials invariant\<close>

lemma kept_set_together: "kept x y \<Longrightarrow> set_together x \<Longrightarrow> set_together y"
  by (simp add: kept_def credentials_def set_together_def)

lemma handleEvent_set_together:
  assumes "set_together h" and "event_typed (eventData request)"
  shows "set_together (snd (handleEvent e request h))"
proof (cases "eventData request")
  case None
  then show ?thesis using assms(1) by (simp add: handleEvent_def)
next
  case (Some ed)
  define h' where "h' = h\<lparr>authToken := Str (the (event_authToken ed)),
      installedAppId := app_installedAppId (the (event_installedApp ed)),
      locationId := app_locationId (the (event_installedApp ed))\<rparr>"
  have a: "event_installedApp ed \<noteq> None \<Longrightarrow> set_together h'"
    using assms(2) Some
    by (auto simp: h'_def set_together_def event_typed_def split: option.splits)
  have b: "event_installedApp ed \<noteq> None \<Longrightarrow> set_together (syncPendingSubscriptions e h')"
    using a kept_set_together kept_syncPending by blast
  have c: "\<And>x. set_together x \<Longrightarrow> set_together (processEvents e (events ed) x)"
    using kept_set_together kept_processEvents by blast
  show ?thesis
    using Some assms(1) a b c by (simp add: handleEvent_def Let_def h'_def)
qed

lemma handleRequest_set_together:
  assumes "set_together h" and "declared_types request"
  shows "set_together (snd (handleRequest e request h))"
proof -
  have ping: "snd (handlePing request h) = h"
    by (simp add: handlePing_def split: option.splits)
  have conf: "kept h (snd (handleConfirmation e request h))"
    by (simp add: handleConfirmation_def axios_def kept_def credentials_def
        split: option.splits http_result.splits)
  have cfg: "snd (handleConfiguration request h) = h"
    by (simp add: handleConfiguration_def split: option.splits)
  have inst: "payload_typed (installData request) \<Longrightarrow>
              set_together (snd (handleInstall e request h))"
  proof (cases "installData request")
    case None
    then show ?thesis using assms(1) by (simp add: handleInstall_def)
  next
    case (Some d)
    assume "payload_typed (installData request)"
    then show ?thesis
      using handleInstall_stored(2) [OF Some, of e h] Some
      by (simp add: set_together_def credentials_def payload_typed_def)
  qed
  have upd: "payload_typed (updateData request) \<Longrightarrow>
             set_together (snd (handleUpdate e request h))"
  proof (cases "updateData request")
    case None
    then show ?thesis using assms(1) by (simp add: handleUpdate_def)
  next
    case (Some d)
    assume "payload_typed (updateData request)"
    then show ?thesis
      using handleUpdate_stored(2) [OF Some, of e h] Some
      by (simp add: set_together_def credentials_def payload_typed_def)
  qed
  have unin: "set_together (snd (handleUninstall e request h))"
    by (simp add: handleUninstall_def clearCredentials_def set_together_def Let_def)
  have ev: "event_typed (eventData request) \<Longrightarrow>
            set_together (snd (handleEvent e request h))"
    using handleEvent_set_together [OF assms(1)] by blast
  show ?thesis
    using assms ping kept_set_together [OF conf] cfg inst upd unin ev
    by (simp add: handleRequest_def declared_types_def)
qed

lemma perform_set_together:
  assumes "set_together h" and "declared_op op"
  shows "set_together (perform op h)"
proof (cases op)
  case (Message e request)
  then show ?thesis using handleRequest_set_together [OF assms(1)] assms(2) by simp
next
  case (SetDeviceIds e ids)
  then show ?thesis
    using kept_set_together [OF kept_setDeviceIds assms(1)] by simp
next
  case (AddEventHandler k)
  then show ?thesis using assms(1) by (simp add: addEventHandler_def set_together_def)
next
  case (AddDeviceLifecycleHandler k)
  then show ?thesis using assms(1) by (simp add: addDeviceLifecycleHandler_def set_together_def)
qed

lemma run_set_together:
  "set_together h \<Longrightarrow> list_all declared_op ops \<Longrightarrow> set_together (run ops h)"
  by (induction ops arbitrary: h) (simp_all add: perform_set_together)

lemma orNull_cases: "isStr (orNull v) \<or> orNull v = Null"
  by (cases v) (simp_all add: orNull_def)

lemma orNull_isStr: "isStr (orNull v) = truthy v"
  by (cases v) (simp_all add: orNull_def)

lemma newHandler_set_together:
  "consistent_file cf \<Longrightarrow> set_together (newHandler cf)"
proof (cases cf)
  case NoCredentialsFile
  then show ?thesis by (simp add: newHandler_def loadCredentials_def set_together_def)
next
  case UnparsableCredentialsFile
  then show ?thesis by (simp add: newHandler_def loadCredentials_def set_together_def)
next
  case (CredentialsJson d)
  assume "consistent_file cf"
  then have t: "truthy (saved_installedAppId d) = truthy (saved_authToken d)"
    using CredentialsJson by simp
  have "isStr (orNull (saved_installedAppId d)) = isStr (orNull (saved_authToken d))"
    using t by (simp add: orNull_isStr)
  then show ?thesis
    using CredentialsJson orNull_cases [of "saved_installedAppId d"]
      orNull_cases [of "saved_authToken d"]
    by (auto simp: newHandler_def loadCredentials_def set_together_def)
qed

lemma set_together_isInstalled:
  "set_together h \<Longrightarrow> isInstalled h = (isStr (installedAppId h) \<and> isStr (authToken h))"
  by (auto simp: set_together_def isInstalled_def)

section \<open>The loop over the events of an EVENT message\<close>

lemma deliveries_Nil [simp]: "deliveries ks [] = []"
  by (simp add: deliveries_def)









section \<open>The claim about an EVENT message\<close>




section \<open>The claim about repeating INSTALL\<close>

text \<open>
  C5. Handling the same INSTALL message (one that carries \<open>installData\<close>) twice in a
  row: the second call answers 200 whatever the remote answers, and leaves the
  credentials equal to those the first call stored; when its write succeeds the file
  holds those same credentials. A create answered 409 makes \<open>createDeviceSubscription\<close>
  return normally, and a loop of creates all answered 409 counts every one of them as
  a success.
\<close>

theorem handleInstall_twice_idempotent:
  assumes "lifecycle request = ''INSTALL''" and "installData request = Some d"
  shows "statusCode (fst (handleRequest eb request (snd (handleRequest ea request h)))) = 200
         \<and> credentials (snd (handleRequest eb request (snd (handleRequest ea request h)))) =
             credentials (snd (handleRequest ea request h))
         \<and> credentials (snd (handleRequest ea request h)) =
             (app_installedAppId (data_installedApp d), data_authToken d,
              data_refreshToken d, app_locationId (data_installedApp d))
         \<and> (fs_ok eb \<longrightarrow>
              credentialsFile (snd (handleRequest eb request (snd (handleRequest ea request h)))) =
                CredentialsJson (snapshot (snd (handleRequest ea request h)) (clock eb)))
         \<and> (remote e (length (outbound h0)) = RejectedStatus 409 \<longrightarrow>
              fst (createDeviceSubscription e dev h0) = True)
         \<and> ((\<forall>i < length ds. remote e (length (outbound h0) + i) = RejectedStatus 409) \<longrightarrow>
              fst (createEach e ds 0 h0) = length ds)"
proof -
  have r: "\<And>e h. handleRequest e request h = handleInstall e request h"
    using assms(1) by (simp add: handleRequest_def)
  let ?h1 = "snd (handleInstall ea request h)"
  let ?h2 = "snd (handleInstall eb request ?h1)"
  note one = handleInstall_stored [OF assms(2), of ea h]
  note two = handleInstall_stored [OF assms(2), of eb ?h1]
  have c: "credentials ?h2 = credentials ?h1"
    by (simp only: one(2) two(2))
  have snap: "snapshot ?h2 (clock eb) = snapshot ?h1 (clock eb)"
    using c by (simp only: snapshot_def credentials_def prod.inject)
  have disk: "fs_ok eb \<longrightarrow> credentialsFile ?h2 = CredentialsJson (snapshot ?h1 (clock eb))"
    using two(3) snap by simp
  have conflict: "remote e (length (outbound h0)) = RejectedStatus 409 \<longrightarrow>
              fst (createDeviceSubscription e dev h0) = True"
    by (simp add: createDeviceSubscription_result)
  have all: "(\<forall>i < length ds. remote e (length (outbound h0) + i) = RejectedStatus 409) \<longrightarrow>
              fst (createEach e ds 0 h0) = length ds"
  proof
    assume "\<forall>i < length ds. remote e (length (outbound h0) + i) = RejectedStatus 409"
    then have "\<forall>i < length ds. createAccepted (remote e (length (outbound h0) + i))"
      by simp
    from createEach_count [OF this, of 0] show "fst (createEach e ds 0 h0) = length ds"
      by simp
  qed
  have status: "statusCode (fst (handleInstall eb request ?h1)) = 200"
    by (simp only: two(1)) simp
  show ?thesis
    unfolding r using status c one(2) disk conflict all by blast
qed

theorem handleInstall_twice_idempotent_witness:
  "lifecycle (install_request ''token-1'') = ''INSTALL'' \<and>
   statusCode (fst (handleRequest conflict_env (install_request ''token-1'')
      (snd (handleRequest quiet_env (install_request ''token-1'') two_devices)))) = 200 \<and>
   credentials (snd (handleRequest conflict_env (install_request ''token-1'')
      (snd (handleRequest quiet_env (install_request ''token-1'') two_devices)))) =
     (Str ''app-1'', Str ''token-1'', Str ''refresh-1'', Str ''loc-1'') \<and>
   fs_ok conflict_env \<and>
   credentialsFile (snd (handleRequest conflict_env (install_request ''token-1'')
      (snd (handleRequest quiet_env (install_request ''token-1'') two_devices)))) =
     CredentialsJson
       \<lparr>saved_installedAppId = Str ''app-1'', saved_authToken = Str ''token-1'',
        saved_refreshToken = Str ''refresh-1'', saved_locationId = Str ''loc-1'',
        savedAt = 2000\<rparr> \<and>
   remote conflict_env (length (outbound two_devices)) = RejectedStatus 409 \<and>
   fst (createDeviceSubscription conflict_env ''device-1'' two_devices) = True \<and>
   fst (createEach conflict_env [''device-1'', ''device-2''] 0 two_devices) = 2"
proof -
  let ?d = "\<lparr>data_authToken = Str ''token-1'', data_refreshToken = Str ''refresh-1'',
             data_installedApp = home_app\<rparr>"
  let ?rq = "install_request ''token-1''"
  let ?h1 = "snd (handleRequest quiet_env ?rq two_devices)"
  have a: "lifecycle ?rq = ''INSTALL''"
    and b: "installData ?rq = Some ?d"
    by (simp_all add: install_request_def empty_request_def)
  have ok: "fs_ok conflict_env" and t: "clock conflict_env = 2000"
    and r: "\<And>n. remote conflict_env n = RejectedStatus 409"
    by (simp_all add: conflict_env_def)
  note twice = handleInstall_twice_idempotent
      [OF a b, of conflict_env quiet_env two_devices conflict_env two_devices "''device-1''"
         "[''device-1'', ''device-2'']"]
  have c: "credentials ?h1 = (Str ''app-1'', Str ''token-1'', Str ''refresh-1'', Str ''loc-1'')"
    using twice by (simp add: home_app_def)
  have sn: "snapshot ?h1 2000 =
       \<lparr>saved_installedAppId = Str ''app-1'', saved_authToken = Str ''token-1'',
        saved_refreshToken = Str ''refresh-1'', saved_locationId = Str ''loc-1'',
        savedAt = 2000\<rparr>"
    using c by (simp add: snapshot_def credentials_def)
  have f: "credentialsFile (snd (handleRequest conflict_env ?rq ?h1)) =
           CredentialsJson (snapshot ?h1 2000)"
    using twice ok t by simp
  have all: "fst (createEach conflict_env [''device-1'', ''device-2''] 0 two_devices) = 2"
    using twice r by simp
  have one: "fst (createDeviceSubscription conflict_env ''device-1'' two_devices) = True"
    using twice r by blast
  have st: "statusCode (fst (handleRequest conflict_env ?rq ?h1)) = 200"
    using twice by blast
  have c2: "credentials (snd (handleRequest conflict_env ?rq ?h1)) =
            (Str ''app-1'', Str ''token-1'', Str ''refresh-1'', Str ''loc-1'')"
    using twice c by simp
  show ?thesis
    using a ok r st c2 f [unfolded sn] all one by simp
qed

section \<open>The claims about the credentials\<close>






text \<open>
  C4, as amended. Starting from a construction that finds no credentials file, an
  unparsable one, or one in which the installed app id and the token are both
  non-empty strings or both missing, \<open>null\<close> or empty, after any sequence of registration
  calls and of lifecycle messages that carry their token and installed app id as
  strings, \<open>installedAppId\<close> and \<open>authToken\<close> are both strings or both \<open>null\<close>; when
  either is not a string \<open>isInstalled\<close> is false, and \<open>isInstalled\<close> is true exactly
  when both are strings.
\<close>

theorem credentials_set_together:
  assumes "consistent_file cf" and "list_all declared_op ops"
  shows "set_together (run ops (newHandler cf))
         \<and> (\<not> isStr (installedAppId (run ops (newHandler cf))) \<or>
            \<not> isStr (authToken (run ops (newHandler cf))) \<longrightarrow>
            \<not> isInstalled (run ops (newHandler cf)))
         \<and> (isInstalled (run ops (newHandler cf)) \<longleftrightarrow>
            isStr (installedAppId (run ops (newHandler cf))) \<and>
            isStr (authToken (run ops (newHandler cf))))"
proof -
  have "set_together (newHandler cf)"
    using assms(1) by (rule newHandler_set_together)
  then have st: "set_together (run ops (newHandler cf))"
    using assms(2) by (rule run_set_together)
  show ?thesis
    using st set_together_isInstalled [OF st] by blast
qed

theorem credentials_set_together_witness:
  "consistent_file earlier_file \<and>
   list_all declared_op
     [SetDeviceIds quiet_env [''device-1''],
      Message quiet_env (event_request (Some ''token-1'') [lifecycle_create ''device-2'']),
      Message conflict_env (update_request ''token-2''),
      Message quiet_env (event_request None [])] \<and>
   set_together
     (run [SetDeviceIds quiet_env [''device-1''],
           Message quiet_env (event_request (Some ''token-1'') [lifecycle_create ''device-2'']),
           Message conflict_env (update_request ''token-2''),
           Message quiet_env (event_request None [])]
        (newHandler earlier_file)) \<and>
   credentials
     (run [SetDeviceIds quiet_env [''device-1''],
           Message quiet_env (event_request (Some ''token-1'') [lifecycle_create ''device-2'']),
           Message conflict_env (update_request ''token-2''),
           Message quiet_env (event_request None [])]
        (newHandler earlier_file)) =
     (Str ''app-1'', Str ''token-2'', Str ''refresh-2'', Str ''loc-1'') \<and>
   isInstalled
     (run [SetDeviceIds quiet_env [''device-1''],
           Message quiet_env (event_request (Some ''token-1'') [lifecycle_create ''device-2'']),
           Message conflict_env (update_request ''token-2''),
           Message quiet_env (event_request None [])]
        (newHandler earlier_file)) \<and>
   consistent_file NoCredentialsFile \<and>
   list_all declared_op
     [Message quiet_env (install_request ''token-1''),
      Message quiet_env (empty_request ''UNINSTALL'')] \<and>
   \<not> isInstalled
     (run [Message quiet_env (install_request ''token-1''),
           Message quiet_env (empty_request ''UNINSTALL'')]
        (newHandler NoCredentialsFile))"
proof -
  let ?ops = "[SetDeviceIds quiet_env [''device-1''],
      Message quiet_env (event_request (Some ''token-1'') [lifecycle_create ''device-2'']),
      Message conflict_env (update_request ''token-2''),
      Message quiet_env (event_request None [])]"
  let ?ops' = "[Message quiet_env (install_request ''token-1''),
      Message quiet_env (empty_request ''UNINSTALL'')]"
  have a: "consistent_file earlier_file"
    by (simp add: earlier_file_def)
  have b: "list_all declared_op ?ops"
    by (simp add: declared_types_def event_typed_def payload_typed_def concrete_defs)
  have a': "consistent_file NoCredentialsFile"
    by simp
  have b': "list_all declared_op ?ops'"
    by (simp add: declared_types_def event_typed_def payload_typed_def concrete_defs)
  note one = credentials_set_together [OF a b]
  note two = credentials_set_together [OF a' b']
  have c: "credentials (run ?ops (newHandler earlier_file)) =
           (Str ''app-1'', Str ''token-2'', Str ''refresh-2'', Str ''loc-1'')"
    by (simp add: earlier_file_def concrete_defs conflict_env_def handler_defs handleUpdate_def
        deleteAllSubscriptions_def credentials_def orNull_def Let_def)
  have d: "isInstalled (run ?ops (newHandler earlier_file))"
    using one c by (simp add: credentials_def)
  have e: "credentials (run ?ops' (newHandler NoCredentialsFile)) = (Null, Null, Null, Null)"
    by (simp add: concrete_defs handler_defs handleUninstall_def clearCredentials_def
        credentials_def Let_def)
  have f: "\<not> isInstalled (run ?ops' (newHandler NoCredentialsFile))"
    using two e by (simp add: credentials_def)
  show ?thesis
    using a b a' b' one c d f by blast
qed

text \<open>
  C4 as stated fails at construction and at INSTALL. \<open>loadCredentials\<close> takes each
  field on its own, so a file that holds only the installed app id, or the file an
  INSTALL with an empty token has written, yields a handler with the id set and the
  token \<open>null\<close>. \<open>handleInstall\<close> stores the token of the message unchecked, so an
  INSTALL whose \<open>authToken\<close> is \<open>null\<close> is answered 200 and leaves the id set beside a
  \<open>null\<close> token; when the \<open>authToken\<close> key is missing the stored token is \<open>undefined\<close>
  and \<open>isInstalled\<close> is true without a token.
\<close>

theorem loaded_credentials_counterexample:
  "\<not> set_together
       (newHandler (CredentialsJson
          \<lparr>saved_installedAppId = Str ''app-1'', saved_authToken = Undefined,
           saved_refreshToken = Undefined, saved_locationId = Undefined, savedAt = 0\<rparr>))
   \<and> credentials
       (newHandler (CredentialsJson
          \<lparr>saved_installedAppId = Str ''app-1'', saved_authToken = Undefined,
           saved_refreshToken = Undefined, saved_locationId = Undefined, savedAt = 0\<rparr>)) =
       (Str ''app-1'', Null, Null, Null)
   \<and> \<not> set_together
       (newHandler (credentialsFile
          (run [Message quiet_env (install_request [])] (newHandler NoCredentialsFile))))
   \<and> statusCode (fst (handleRequest quiet_env (install_request_with Null)
                         (newHandler NoCredentialsFile))) = 200
   \<and> credentials (snd (handleRequest quiet_env (install_request_with Null)
                          (newHandler NoCredentialsFile))) =
       (Str ''app-1'', Null, Str ''refresh-1'', Str ''loc-1'')
   \<and> \<not> set_together (snd (handleRequest quiet_env (install_request_with Null)
                          (newHandler NoCredentialsFile)))
   \<and> authToken (snd (handleRequest quiet_env (install_request_with Undefined)
                        (newHandler NoCredentialsFile))) = Undefined
   \<and> isInstalled (snd (handleRequest quiet_env (install_request_with Undefined)
                          (newHandler NoCredentialsFile)))"
  by (simp add: concrete_defs handler_defs set_together_def credentials_def orNull_def Let_def)

section \<open>The claim about a malformed body\<close>

text \<open>
  C9, as amended. When the server has a SmartApp handler (direct webhook mode), a body
  that is not valid JSON is answered 400; when it has none, the request is answered
  500 before the body is looked at. In both cases the server, its handler and the
  credentials file are left exactly as they were, so later requests are served as if
  this one had not come.
\<close>

theorem malformed_body_rejected:
  assumes "JSON_parse body_text = None"
  shows "(smartAppHandler srv \<noteq> None \<longrightarrow>
            handleSmartAppRequest JSON_parse e body_text srv =
              (\<lparr>status = 400, content = ErrorMessage ''Invalid request body''\<rparr>, srv))
         \<and> (smartAppHandler srv = None \<longrightarrow>
            handleSmartAppRequest JSON_parse e body_text srv =
              (\<lparr>status = 500, content = ErrorMessage ''SmartApp handler not initialized''\<rparr>,
               srv))
         \<and> snd (handleSmartAppRequest JSON_parse e body_text srv) = srv"
  using assms by (auto simp: handleSmartAppRequest_def split: option.splits)

theorem malformed_body_rejected_witness:
  "stub_JSON_parse ''{'' = None \<and>
   smartAppHandler (newWebhookServer True None NoCredentialsFile) \<noteq> None \<and>
   handleSmartAppRequest stub_JSON_parse quiet_env ''{''
       (newWebhookServer True None NoCredentialsFile) =
     (\<lparr>status = 400, content = ErrorMessage ''Invalid request body''\<rparr>,
      newWebhookServer True None NoCredentialsFile)"
proof -
  have a: "stub_JSON_parse ''{'' = None"
    by (simp add: stub_JSON_parse_def)
  have b: "smartAppHandler (newWebhookServer True None NoCredentialsFile) \<noteq> None"
    by (simp add: newWebhookServer_def)
  show ?thesis
    using a b malformed_body_rejected
      [where JSON_parse = stub_JSON_parse and body_text = "''{''"
         and srv = "newWebhookServer True None NoCredentialsFile" and e = quiet_env]
    by blast
qed

text \<open>
  C9 as stated fails when direct webhook mode is off: \<open>/smartapp\<close> is still routed to
  the lifecycle handler of the server, which answers 500.
\<close>

theorem malformed_body_legacy_mode_counterexample:
  "route (newWebhookServer False None NoCredentialsFile) ''/smartapp'' ''POST'' = SmartApp \<and>
   stub_JSON_parse ''{'' = None \<and>
   status (fst (handleSmartAppRequest stub_JSON_parse quiet_env ''{''
                  (newWebhookServer False None NoCredentialsFile))) = 500"
  by (simp add: route_def newWebhookServer_def stub_JSON_parse_def handleSmartAppRequest_def)

section \<open>The claims about PING and unknown lifecycles\<close>

text \<open>
  C8. A PING message with a non-empty challenge is answered 200 with that challenge,
  unchanged. When \<open>pingData\<close> or its challenge is absent the answer is 400. In every
  case the handler is left as it was, and the response is the same whatever the state
  of the handler and the environment.
\<close>

theorem handlePing_echoes_challenge:
  assumes "lifecycle request = ''PING''"
  shows "(\<forall>pd c. pingData request = Some pd \<and> challenge pd = Some c \<and> c \<noteq> [] \<longrightarrow>
            handleRequest e request h = (\<lparr>statusCode = 200, body = PingBody c\<rparr>, h))
         \<and> (pingData request = None \<or> (\<exists>pd. pingData request = Some pd \<and> challenge pd = None) \<longrightarrow>
            handleRequest e request h = (\<lparr>statusCode = 400, body = NoBody\<rparr>, h))
         \<and> snd (handleRequest e request h) = h
         \<and> fst (handleRequest e request h) = fst (handleRequest e' request h')"
  using assms
  by (auto simp: handleRequest_def handlePing_def truthyOpt_def split: option.splits)

theorem handlePing_echoes_challenge_witness:
  "lifecycle (ping_request (Some ''abc'')) = ''PING'' \<and>
   pingData (ping_request (Some ''abc'')) = Some \<lparr>challenge = Some ''abc''\<rparr> \<and>
   handleRequest quiet_env (ping_request (Some ''abc'')) two_devices =
     (\<lparr>statusCode = 200, body = PingBody ''abc''\<rparr>, two_devices) \<and>
   lifecycle (ping_request None) = ''PING'' \<and>
   handleRequest quiet_env (ping_request None) two_devices =
     (\<lparr>statusCode = 400, body = NoBody\<rparr>, two_devices)"
proof -
  have a: "lifecycle (ping_request (Some ''abc'')) = ''PING''"
    and b: "pingData (ping_request (Some ''abc'')) = Some \<lparr>challenge = Some ''abc''\<rparr>"
    and c: "lifecycle (ping_request None) = ''PING''"
    and d: "pingData (ping_request None) = Some \<lparr>challenge = None\<rparr>"
    by (simp_all add: ping_request_def empty_request_def)
  have "handleRequest quiet_env (ping_request (Some ''abc'')) two_devices =
     (\<lparr>statusCode = 200, body = PingBody ''abc''\<rparr>, two_devices)"
    using handlePing_echoes_challenge [OF a, of quiet_env two_devices] b by simp
  moreover have "handleRequest quiet_env (ping_request None) two_devices =
     (\<lparr>statusCode = 400, body = NoBody\<rparr>, two_devices)"
    using handlePing_echoes_challenge [OF c, of quiet_env two_devices] d by simp
  ultimately show ?thesis using a b c by simp
qed

text \<open>
  C10. A message whose lifecycle is none of the seven known names is answered
  \<open>{ statusCode: 200 }\<close>, and the handler is left as it was: same credentials, same
  registration, same credentials file, no outbound call.
\<close>

theorem handleRequest_unknown_lifecycle:
  assumes "lifecycle request \<notin>
             {''PING'', ''CONFIRMATION'', ''CONFIGURATION'', ''INSTALL'', ''UPDATE'',
              ''EVENT'', ''UNINSTALL''}"
  shows "handleRequest e request h = (\<lparr>statusCode = 200, body = NoBody\<rparr>, h)"
  using assms by (simp add: handleRequest_def)

theorem handleRequest_unknown_lifecycle_witness:
  "lifecycle (empty_request ''EXECUTE'') \<notin>
             {''PING'', ''CONFIRMATION'', ''CONFIGURATION'', ''INSTALL'', ''UPDATE'',
              ''EVENT'', ''UNINSTALL''} \<and>
   handleRequest quiet_env (empty_request ''EXECUTE'') two_devices =
     (\<lparr>statusCode = 200, body = NoBody\<rparr>, two_devices)"
proof -
  have a: "lifecycle (empty_request ''EXECUTE'') \<notin>
             {''PING'', ''CONFIRMATION'', ''CONFIGURATION'', ''INSTALL'', ''UPDATE'',
              ''EVENT'', ''UNINSTALL''}"
    by (simp add: empty_request_def)
  show ?thesis
    using a handleRequest_unknown_lifecycle [OF a, of quiet_env two_devices] by simp
qed

section \<open>The claims about the crash log\<close>

text \<open>
  C7. After any number of \<open>recordPotentialCrash\<close> calls, whatever their error kinds,
  times and write outcomes, a log that held at most 20 entries (a fresh one holds
  none) still holds at most 20. A record call whose write succeeds leaves at most 20
  entries whatever was there before, and what it keeps is the tail of the old log
  followed by the new entry: the entries dropped are the oldest by position.
\<close>

theorem crash_log_never_exceeds_20:
  "(length (readCrashLog f) \<le> 20 \<longrightarrow> length (readCrashLog (recordAll calls f)) \<le> 20)
   \<and> length (readCrashLog (recordAll calls NoCrashFile)) \<le> 20
   \<and> length (readCrashLog (recordPotentialCrash True now et f)) \<le> 20
   \<and> readCrashLog (recordPotentialCrash True now et f) =
       drop (length (readCrashLog f) + 1 - 20)
         (readCrashLog f @ [\<lparr>timestamp = now, errorType = et\<rparr>])"
proof (intro conjI impI)
  assume "length (readCrashLog f) \<le> 20"
  then show "length (readCrashLog (recordAll calls f)) \<le> 20"
    using recordAll_bounded [of f calls] by (simp add: MAX_LOG_ENTRIES_def)
next
  show "length (readCrashLog (recordAll calls NoCrashFile)) \<le> 20"
    using recordAll_bounded [of NoCrashFile calls] by (simp add: MAX_LOG_ENTRIES_def)
next
  show "length (readCrashLog (recordPotentialCrash True now et f)) \<le> 20"
    by (simp add: recordPotentialCrash_def readCrashLog_writeCrashLog MAX_LOG_ENTRIES_def)
next
  show "readCrashLog (recordPotentialCrash True now et f) =
       drop (length (readCrashLog f) + 1 - 20)
         (readCrashLog f @ [\<lparr>timestamp = now, errorType = et\<rparr>])"
    by (simp add: recordPotentialCrash_def readCrashLog_writeCrashLog MAX_LOG_ENTRIES_def)
qed

theorem crash_log_never_exceeds_20_witness:
  "length (readCrashLog full_log) = 20 \<and>
   length (readCrashLog
      (recordAll [(True, 21, ''TOKEN_REFRESH_FAILURE''), (False, 22, ''DEVICE_HEALTH_FAILURE''),
                  (True, 23, ''UNKNOWN_API_FAILURE'')] full_log)) \<le> 20 \<and>
   map timestamp (readCrashLog
      (recordAll [(True, 21, ''TOKEN_REFRESH_FAILURE''), (False, 22, ''DEVICE_HEALTH_FAILURE''),
                  (True, 23, ''UNKNOWN_API_FAILURE'')] full_log)) =
     [3, 4, 5, 6, 7, 8, 9, 10, 11, 12, 13, 14, 15, 16, 17, 18, 19, 20, 21, 23] \<and>
   map timestamp (readCrashLog (recordPotentialCrash True 21 ''TOKEN_REFRESH_FAILURE'' full_log)) =
     [2, 3, 4, 5, 6, 7, 8, 9, 10, 11, 12, 13, 14, 15, 16, 17, 18, 19, 20, 21] \<and>
   map errorType (readCrashLog (recordPotentialCrash True 21 ''TOKEN_REFRESH_FAILURE'' full_log)) =
     replicate 19 ''API_INIT_FAILURE'' @ [''TOKEN_REFRESH_FAILURE'']"
proof -
  let ?calls = "[(True, 21, ''TOKEN_REFRESH_FAILURE''), (False, 22, ''DEVICE_HEALTH_FAILURE''),
                 (True, 23, ''UNKNOWN_API_FAILURE'')]"
  have full: "length (readCrashLog full_log) = 20"
    by (simp add: full_log_def)
  note cap = crash_log_never_exceeds_20 [of full_log ?calls 21 "''TOKEN_REFRESH_FAILURE''"]
  have bounded: "length (readCrashLog (recordAll ?calls full_log)) \<le> 20"
    using cap full by simp
  have dropped: "readCrashLog (recordPotentialCrash True 21 ''TOKEN_REFRESH_FAILURE'' full_log) =
        drop 1 (readCrashLog full_log @
                [\<lparr>timestamp = 21, errorType = ''TOKEN_REFRESH_FAILURE''\<rparr>])"
    using cap full by simp
  have stamps: "map timestamp
        (readCrashLog (recordPotentialCrash True 21 ''TOKEN_REFRESH_FAILURE'' full_log)) =
        [2, 3, 4, 5, 6, 7, 8, 9, 10, 11, 12, 13, 14, 15, 16, 17, 18, 19, 20, 21]"
    unfolding dropped by (simp add: full_log_def)
  have kinds: "map errorType
        (readCrashLog (recordPotentialCrash True 21 ''TOKEN_REFRESH_FAILURE'' full_log)) =
        replicate 19 ''API_INIT_FAILURE'' @ [''TOKEN_REFRESH_FAILURE'']"
    unfolding dropped by (simp add: full_log_def numeral_eq_Suc)
  have all: "map timestamp (readCrashLog (recordAll ?calls full_log)) =
        [3, 4, 5, 6, 7, 8, 9, 10, 11, 12, 13, 14, 15, 16, 17, 18, 19, 20, 21, 23]"
    by (simp add: full_log_def recordPotentialCrash_def writeCrashLog_def MAX_LOG_ENTRIES_def)
  show ?thesis
    using full bounded all stamps kinds by blast
qed

text \<open>
  C2, as amended. \<open>isCrashLoopDetected\<close> returns true if and only if the log is not
  empty and the number of entries within the window and of a relevant kind (any kind
  when none is listed) is at least \<open>maxCrashes\<close>. For \<open>maxCrashes\<close> of 1 or more this
  is the count condition alone. With the default configuration (5 crashes, 15
  minutes), entries at minutes 0, 1, 2, 3 and 14 before now are a loop; with the last
  one at minute 16 they are not.
\<close>

theorem isCrashLoopDetected_iff:
  "(isCrashLoopDetected now config f \<longleftrightarrow>
      readCrashLog f \<noteq> [] \<and>
      maxCrashes config \<le> int (spec_relevant_count now config (readCrashLog f)))
   \<and> (0 < maxCrashes config \<longrightarrow>
        (isCrashLoopDetected now config f \<longleftrightarrow>
           maxCrashes config \<le> int (spec_relevant_count now config (readCrashLog f))))
   \<and> isCrashLoopDetected now defaultCrashLoopConfig
        (CrashEntries (entries_at_minutes now [0, 1, 2, 3, 14]))
   \<and> \<not> isCrashLoopDetected now defaultCrashLoopConfig
        (CrashEntries (entries_at_minutes now [0, 1, 2, 3, 16]))"
proof (intro conjI impI)
  show main: "isCrashLoopDetected now config f \<longleftrightarrow>
      readCrashLog f \<noteq> [] \<and>
      maxCrashes config \<le> int (spec_relevant_count now config (readCrashLog f))"
    by (simp add: isCrashLoopDetected_def spec_relevant_count_eq Let_def)
  assume pos: "0 < maxCrashes config"
  have "readCrashLog f = [] \<Longrightarrow> spec_relevant_count now config (readCrashLog f) = 0"
    by (simp add: spec_relevant_count_def)
  with pos main show "isCrashLoopDetected now config f \<longleftrightarrow>
           maxCrashes config \<le> int (spec_relevant_count now config (readCrashLog f))"
    by auto
next
  show "isCrashLoopDetected now defaultCrashLoopConfig
        (CrashEntries (entries_at_minutes now [0, 1, 2, 3, 14]))"
    by (simp add: isCrashLoopDetected_def recentRelevant_def defaultCrashLoopConfig_def
        entries_at_minutes_def)
next
  show "\<not> isCrashLoopDetected now defaultCrashLoopConfig
        (CrashEntries (entries_at_minutes now [0, 1, 2, 3, 16]))"
    by (simp add: isCrashLoopDetected_def recentRelevant_def defaultCrashLoopConfig_def
        entries_at_minutes_def)
qed

theorem isCrashLoopDetected_iff_witness:
  "0 < maxCrashes defaultCrashLoopConfig \<and>
   (isCrashLoopDetected 900000 defaultCrashLoopConfig
      (CrashEntries (entries_at_minutes 900000 [0, 1, 2, 3, 14])) \<longleftrightarrow>
    maxCrashes defaultCrashLoopConfig
      \<le> int (spec_relevant_count 900000 defaultCrashLoopConfig
               (readCrashLog (CrashEntries (entries_at_minutes 900000 [0, 1, 2, 3, 14])))))"
proof -
  have pos: "0 < maxCrashes defaultCrashLoopConfig"
    by (simp add: defaultCrashLoopConfig_def)
  have "0 < maxCrashes defaultCrashLoopConfig \<longrightarrow>
        (isCrashLoopDetected 900000 defaultCrashLoopConfig
           (CrashEntries (entries_at_minutes 900000 [0, 1, 2, 3, 14])) \<longleftrightarrow>
         maxCrashes defaultCrashLoopConfig
           \<le> int (spec_relevant_count 900000 defaultCrashLoopConfig
                    (readCrashLog (CrashEntries (entries_at_minutes 900000 [0, 1, 2, 3, 14])))))"
    using isCrashLoopDetected_iff
      [of 900000 defaultCrashLoopConfig
          "CrashEntries (entries_at_minutes 900000 [0, 1, 2, 3, 14])"]
    by blast
  with pos show ?thesis by blast
qed

text \<open>
  C2 as stated fails on an empty log when \<open>maxCrashes\<close> is 0: the count 0 reaches the
  threshold, and the code returns false before it counts.
\<close>

theorem isCrashLoopDetected_empty_log_counterexample:
  "\<not> (isCrashLoopDetected 0 \<lparr>maxCrashes = 0, timeWindowMinutes = 15, relevantErrorTypes = []\<rparr>
         NoCrashFile \<longleftrightarrow>
       maxCrashes \<lparr>maxCrashes = 0, timeWindowMinutes = 15, relevantErrorTypes = []\<rparr>
         \<le> int (spec_relevant_count 0
                  \<lparr>maxCrashes = 0, timeWindowMinutes = 15, relevantErrorTypes = []\<rparr>
                  (readCrashLog NoCrashFile)))"
  by (simp add: isCrashLoopDetected_def spec_relevant_count_def)

end
